theory Spec2Isabelle
  imports Main
begin

section \<open>Python string operations used by the model builder\<close>

text \<open>
  A Python \<open>str\<close> is modelled as a \<open>string\<close>: a list of characters with code points
  below 256. \<open>py_isspace\<close> and \<open>py_lower_char\<close> follow \<open>str.isspace\<close> and
  \<open>str.lower\<close> on that range.
\<close>

definition py_isspace :: "char \<Rightarrow> bool" where
  "py_isspace c = ((of_char c :: nat) \<in> {9, 10, 11, 12, 13, 28, 29, 30, 31, 32, 133, 160})"

definition py_lower_char :: "char \<Rightarrow> char" where
  "py_lower_char c =
     (let n = (of_char c :: nat) in
      if (65 \<le> n \<and> n \<le> 90) \<or> (192 \<le> n \<and> n \<le> 222 \<and> n \<noteq> 215)
      then char_of (n + 32) else c)"

text \<open>\<open>s.lower()\<close>\<close>

definition lower :: "string \<Rightarrow> string" where
  "lower s = map py_lower_char s"

text \<open>\<open>s.strip()\<close>: leading and trailing whitespace removed.\<close>

definition strip :: "string \<Rightarrow> string" where
  "strip s = rev (dropWhile py_isspace (rev (dropWhile py_isspace s)))"

text \<open>\<open>s.strip(chars)\<close>: leading and trailing characters of \<open>chars\<close> removed.\<close>

definition strip_chars :: "string \<Rightarrow> string \<Rightarrow> string" where
  "strip_chars s chars =
     rev (dropWhile (\<lambda>c. c \<in> set chars) (rev (dropWhile (\<lambda>c. c \<in> set chars) s)))"

text \<open>\<open>s.startswith(p)\<close>\<close>

definition startswith :: "string \<Rightarrow> string \<Rightarrow> bool" where
  "startswith s p = (take (length p) s = p)"

text \<open>\<open>s.find(sub)\<close>: the lowest index where \<open>sub\<close> occurs, or \<open>-1\<close>.\<close>

fun find_str :: "string \<Rightarrow> string \<Rightarrow> int" where
  "find_str [] sub = (if sub = [] then 0 else - 1)"
| "find_str (c # cs) sub =
     (if startswith (c # cs) sub then 0
      else (let r = find_str cs sub in if r < 0 then - 1 else r + 1))"

text \<open>\<open>s[i:]\<close> for an index \<open>i \<ge> 0\<close>.\<close>

definition slice_from :: "string \<Rightarrow> int \<Rightarrow> string" where
  "slice_from s i = drop (nat i) s"

text \<open>\<open>s.split(sep)\<close> for a separator of one character: never the empty list.\<close>

fun split :: "string \<Rightarrow> char \<Rightarrow> string list" where
  "split [] sep = [[]]"
| "split (c # cs) sep =
     (if c = sep then [] # split cs sep
      else (case split cs sep of [] \<Rightarrow> [[c]] | x # xs \<Rightarrow> (c # x) # xs))"

text \<open>\<open>sep.join(xs)\<close>\<close>

fun join :: "string \<Rightarrow> string list \<Rightarrow> string" where
  "join sep [] = []"
| "join sep [x] = x"
| "join sep (x # y # ys) = x @ sep @ join sep (y # ys)"

text \<open>\<open>s.replace(old, new, 1)\<close>: the leftmost occurrence of \<open>old\<close> replaced, if any.\<close>

fun replace_first :: "string \<Rightarrow> string \<Rightarrow> string \<Rightarrow> string" where
  "replace_first [] old new = (if old = [] then new else [])"
| "replace_first (c # cs) old new =
     (if startswith (c # cs) old then new @ drop (length old) (c # cs)
      else c # replace_first cs old new)"

section \<open>Metadata extraction: \<open>get_metadata\<close>\<close>

definition newline :: char where
  "newline = CHR 0x0A"

text \<open>\<open>line[line.find(":") + 1 :]\<close>\<close>

definition after_colon :: "string \<Rightarrow> string" where
  "after_colon line = slice_from line (find_str line '':'' + 1)"

text \<open>
  The loop of \<open>get_metadata\<close> over the lines, with the three variables it updates:
  \<open>tags\<close>, \<open>category\<close> and \<open>description_trimmed\<close>.
\<close>

fun get_metadata_loop ::
  "string list \<Rightarrow> string list \<Rightarrow> string \<Rightarrow> string list \<Rightarrow> string list \<times> string list \<times> string" where
  "get_metadata_loop [] tags category description_trimmed =
     (description_trimmed, tags, category)"
| "get_metadata_loop (line # lines) tags category description_trimmed =
     (if startswith (lower (strip line)) ''tags:'' then
        get_metadata_loop lines (map strip (split (after_colon line) CHR '',''))
          category description_trimmed
      else if startswith (lower (strip line)) ''category:'' then
        get_metadata_loop lines tags (strip (after_colon line)) description_trimmed
      else
        get_metadata_loop lines tags category (description_trimmed @ [line]))"

definition get_metadata :: "string \<Rightarrow> string \<times> string list \<times> string" where
  "get_metadata description =
     (case get_metadata_loop (split description newline) [] [] [] of
        (description_trimmed, tags, category) \<Rightarrow>
          (join [newline] description_trimmed, tags, category))"

section \<open>The typed model (\<open>gdscript_objects.py\<close>)\<close>

definition BUILTIN_VIRTUAL_CALLBACKS :: "string list" where
  "BUILTIN_VIRTUAL_CALLBACKS =
     [''_process'', ''_physics_process'', ''_input'', ''_unhandled_input'', ''_gui_input'',
      ''_draw'', ''_get_configuration_warning'', ''_ready'', ''_enter_tree'', ''_exit_tree'',
      ''_get'', ''_get_property_list'', ''_notification'', ''_set'', ''_to_string'',
      ''_clips_input'', ''_get_minimum_size'', ''_gui_input'', ''_make_custom_tooltip'']"

definition TYPE_CONSTRUCTOR :: string where
  "TYPE_CONSTRUCTOR = ''_init''"

record Argument =
  arg_name :: string
  arg_type :: string

record Signal =
  sig_signature :: string
  sig_name :: string
  sig_description :: string
  sig_arguments :: "string list"

datatype FunctionTypes = METHOD | VIRTUAL | STATIC

record Function =
  fn_signature :: string
  fn_kind :: FunctionTypes
  fn_name :: string
  fn_description :: string
  fn_return_type :: string
  fn_arguments :: "Argument list"
  fn_rpc_mode :: int
  fn_tags :: "string list"

record Enumeration =
  enum_signature :: string
  enum_name :: string
  enum_description :: string
  enum_values :: "(string \<times> int) list"

record Member =
  mem_signature :: string
  mem_name :: string
  mem_description :: string
  mem_type :: string
  mem_default_value :: string
  mem_is_exported :: bool
  mem_setter :: string
  mem_getter :: string
  mem_tags :: "string list"

record GDScriptClass =
  cls_name :: string
  cls_extends :: "string list"
  cls_description :: string
  cls_path :: string
  cls_functions :: "Function list"
  cls_members :: "Member list"
  cls_signals :: "Signal list"
  cls_enums :: "Enumeration list"
  cls_tags :: "string list"
  cls_category :: string

section \<open>Raw records\<close>

text \<open>
  The input dictionaries. Each key the builder reads is a field holding \<open>None\<close> when the
  dictionary has no such key, and the value (typed as the builder uses it) otherwise.
  \<open>getitem\<close> is the subscript \<open>entry["key"]\<close>, which raises \<open>KeyError\<close> on an absent
  key.
\<close>

datatype error = KeyError string | TypeError string

record argument_entry =
  ae_name :: "string option"
  ae_type :: "string option"

record method_entry =
  me_name :: "string option"
  me_signature :: "string option"
  me_description :: "string option"
  me_return_type :: "string option"
  me_arguments :: "argument_entry list option"
  me_rpc_mode :: "int option"

record member_entry =
  mbe_name :: "string option"
  mbe_signature :: "string option"
  mbe_description :: "string option"
  mbe_data_type :: "string option"
  mbe_default_value :: "string option"
  mbe_export :: "bool option"
  mbe_setter :: "string option"
  mbe_getter :: "string option"

record signal_entry =
  se_signature :: "string option"
  se_name :: "string option"
  se_description :: "string option"
  se_arguments :: "string list option"

record constant_entry =
  ce_data_type :: "string option"
  ce_signature :: "string option"
  ce_name :: "string option"
  ce_description :: "string option"
  ce_value :: "(string \<times> int) list option"

record class_entry =
  d_name :: "string option"
  d_extends_class :: "string list option"
  d_description :: "string option"
  d_path :: "string option"
  d_methods :: "method_entry list option"
  d_static_functions :: "method_entry list option"
  d_members :: "member_entry list option"
  d_signals :: "signal_entry list option"
  d_constants :: "constant_entry list option"

definition getitem :: "string \<Rightarrow> 'a option \<Rightarrow> error + 'a" where
  "getitem key v = (case v of None \<Rightarrow> Inl (KeyError key) | Some x \<Rightarrow> Inr x)"

text \<open>Sequencing: an exception raised by the first computation ends the whole one.\<close>

definition andthen :: "error + 'a \<Rightarrow> ('a \<Rightarrow> error + 'b) \<Rightarrow> error + 'b" where
  "andthen m f = (case m of Inl e \<Rightarrow> Inl e | Inr x \<Rightarrow> f x)"

section \<open>The model builder\<close>

fun get_arguments :: "argument_entry list \<Rightarrow> error + Argument list" where
  "get_arguments [] = Inr []"
| "get_arguments (entry # data) =
     andthen (getitem ''name'' (ae_name entry)) (\<lambda>n.
     andthen (getitem ''type'' (ae_type entry)) (\<lambda>t.
     andthen (get_arguments data) (\<lambda>arguments.
     Inr (\<lparr>arg_name = n, arg_type = t\<rparr> # arguments))))"

text \<open>
  One pass of the loop of \<open>_get_functions\<close>: \<open>None\<close> is a \<open>continue\<close>, \<open>Some\<close> the
  function appended. The keys are read in the order the source reads them.
\<close>

definition get_function :: "method_entry \<Rightarrow> bool \<Rightarrow> error + Function option" where
  "get_function entry is_static =
     andthen (getitem ''name'' (me_name entry)) (\<lambda>name.
     if name \<in> set BUILTIN_VIRTUAL_CALLBACKS then Inr None
     else
     andthen (if name = TYPE_CONSTRUCTOR
           then andthen (getitem ''arguments'' (me_arguments entry)) (\<lambda>a. Inr (a = []))
           else Inr False) (\<lambda>constructor_without_arguments.
     if constructor_without_arguments then Inr None
     else
     andthen (getitem ''description'' (me_description entry)) (\<lambda>d.
     case get_metadata d of (description, tags, _) \<Rightarrow>
     let is_virtual = (''virtual'' \<in> set tags \<and> \<not> is_static);
         is_private = (startswith name ''_'' \<and> \<not> is_virtual)
     in
     if is_private then Inr None
     else
     let kind = (if is_static then STATIC else if is_virtual then VIRTUAL else METHOD)
     in
     andthen (getitem ''signature'' (me_signature entry)) (\<lambda>signature.
     andthen (getitem ''return_type'' (me_return_type entry)) (\<lambda>return_type.
     andthen (getitem ''arguments'' (me_arguments entry)) (\<lambda>args.
     andthen (get_arguments args) (\<lambda>arguments.
     Inr (Some \<lparr>fn_signature = replace_first signature ''-> null'' ''-> void'',
                fn_kind = kind,
                fn_name = name,
                fn_description = strip_chars description [CHR '' '', newline],
                fn_return_type = replace_first return_type ''null'' ''void'',
                fn_arguments = arguments,
                fn_rpc_mode = (case me_rpc_mode entry of Some r \<Rightarrow> r | None \<Rightarrow> 0),
                fn_tags = tags\<rparr>))))))))"

fun get_functions :: "method_entry list \<Rightarrow> bool \<Rightarrow> error + Function list" where
  "get_functions [] is_static = Inr []"
| "get_functions (entry # data) is_static =
     andthen (get_function entry is_static) (\<lambda>r.
     andthen (get_functions data is_static) (\<lambda>functions.
     Inr (case r of None \<Rightarrow> functions | Some function \<Rightarrow> function # functions)))"

text \<open>One pass of the loop of \<open>_get_members\<close>.\<close>

definition get_member :: "member_entry \<Rightarrow> error + Member option" where
  "get_member entry =
     andthen (getitem ''name'' (mbe_name entry)) (\<lambda>name0.
     if startswith name0 ''_'' then Inr None
     else
     andthen (getitem ''description'' (mbe_description entry)) (\<lambda>d.
     case get_metadata d of (description, tags, _) \<Rightarrow>
     andthen (getitem ''signature'' (mbe_signature entry)) (\<lambda>signature.
     andthen (getitem ''name'' (mbe_name entry)) (\<lambda>name.
     andthen (getitem ''data_type'' (mbe_data_type entry)) (\<lambda>data_type.
     andthen (getitem ''default_value'' (mbe_default_value entry)) (\<lambda>default_value.
     andthen (getitem ''export'' (mbe_export entry)) (\<lambda>export.
     andthen (getitem ''setter'' (mbe_setter entry)) (\<lambda>setter.
     andthen (getitem ''getter'' (mbe_getter entry)) (\<lambda>getter.
     Inr (Some \<lparr>mem_signature = signature,
                mem_name = name,
                mem_description = strip_chars description [CHR '' '', newline],
                mem_type = data_type,
                mem_default_value = default_value,
                mem_is_exported = export,
                mem_setter = setter,
                mem_getter = getter,
                mem_tags = tags\<rparr>))))))))))"

fun get_members :: "member_entry list \<Rightarrow> error + Member list" where
  "get_members [] = Inr []"
| "get_members (entry # data) =
     andthen (get_member entry) (\<lambda>r.
     andthen (get_members data) (\<lambda>members.
     Inr (case r of None \<Rightarrow> members | Some member \<Rightarrow> member # members)))"

fun get_signals :: "signal_entry list \<Rightarrow> error + Signal list" where
  "get_signals [] = Inr []"
| "get_signals (entry # data) =
     andthen (getitem ''signature'' (se_signature entry)) (\<lambda>signature.
     andthen (getitem ''name'' (se_name entry)) (\<lambda>name.
     andthen (getitem ''description'' (se_description entry)) (\<lambda>description.
     andthen (getitem ''arguments'' (se_arguments entry)) (\<lambda>arguments.
     andthen (get_signals data) (\<lambda>signals.
     Inr (\<lparr>sig_signature = signature, sig_name = name, sig_description = description,
           sig_arguments = arguments\<rparr> # signals))))))"

text \<open>\<open>Enumeration.from_dict\<close>\<close>

definition enumeration_from_dict :: "constant_entry \<Rightarrow> error + Enumeration" where
  "enumeration_from_dict data =
     andthen (getitem ''signature'' (ce_signature data)) (\<lambda>signature.
     andthen (getitem ''name'' (ce_name data)) (\<lambda>name.
     andthen (getitem ''description'' (ce_description data)) (\<lambda>description.
     andthen (getitem ''value'' (ce_value data)) (\<lambda>v.
     Inr \<lparr>enum_signature = signature, enum_name = name, enum_description = description,
          enum_values = v\<rparr>))))"

text \<open>
  The list comprehension of \<open>GDScriptClass.from_dict\<close> over \<open>data["constants"]\<close>, with
  its filter \<open>entry["data_type"] == "Dictionary"\<close>.
\<close>

fun get_enums :: "constant_entry list \<Rightarrow> error + Enumeration list" where
  "get_enums [] = Inr []"
| "get_enums (entry # data) =
     andthen (getitem ''data_type'' (ce_data_type entry)) (\<lambda>data_type.
     if data_type = ''Dictionary'' then
       andthen (enumeration_from_dict entry) (\<lambda>enum.
       andthen (get_enums data) (\<lambda>enums. Inr (enum # enums)))
     else get_enums data)"

text \<open>\<open>GDScriptClass.from_dict\<close>\<close>

definition from_dict :: "class_entry \<Rightarrow> error + GDScriptClass" where
  "from_dict data =
     andthen (getitem ''description'' (d_description data)) (\<lambda>d.
     case get_metadata d of (description, tags, category) \<Rightarrow>
     andthen (getitem ''name'' (d_name data)) (\<lambda>name.
     andthen (getitem ''extends_class'' (d_extends_class data)) (\<lambda>extends_class.
     andthen (getitem ''path'' (d_path data)) (\<lambda>path.
     andthen (getitem ''methods'' (d_methods data)) (\<lambda>methods.
     andthen (get_functions methods False) (\<lambda>functions.
     andthen (getitem ''static_functions'' (d_static_functions data)) (\<lambda>static_functions.
     andthen (get_functions static_functions True) (\<lambda>statics.
     andthen (getitem ''members'' (d_members data)) (\<lambda>members0.
     andthen (get_members members0) (\<lambda>members.
     andthen (getitem ''signals'' (d_signals data)) (\<lambda>signals0.
     andthen (get_signals signals0) (\<lambda>signals.
     andthen (getitem ''constants'' (d_constants data)) (\<lambda>constants.
     andthen (get_enums constants) (\<lambda>enums.
     Inr \<lparr>cls_name = name,
          cls_extends = extends_class,
          cls_description = strip_chars description [CHR '' '', newline],
          cls_path = path,
          cls_functions = functions @ statics,
          cls_members = members,
          cls_signals = signals,
          cls_enums = enums,
          cls_tags = tags,
          cls_category = category\<rparr>))))))))))))))"

text \<open>\<open>GDScriptClasses.from_dict_list\<close>: entries without a \<open>name\<close> key are skipped.\<close>

fun from_dict_list :: "class_entry list \<Rightarrow> error + GDScriptClass list" where
  "from_dict_list [] = Inr []"
| "from_dict_list (entry # data) =
     (if d_name entry \<noteq> None then
        andthen (from_dict entry) (\<lambda>c.
        andthen (from_dict_list data) (\<lambda>cs. Inr (c # cs)))
      else from_dict_list data)"

section \<open>Grouping: \<open>GDScriptClasses._get_grouped_by\<close>\<close>

text \<open>
  The names in \<open>self[0].__dict__\<close>: the fields of the dataclass \<open>GDScriptClass\<close>.
\<close>

definition GDScriptClass_fields :: "string list" where
  "GDScriptClass_fields =
     [''name'', ''extends'', ''description'', ''path'', ''functions'', ''members'',
      ''signals'', ''enums'', ''tags'', ''category'']"

text \<open>
  The call \<open>sorted(self, get_attribute)\<close>. The builtin is
  \<open>sorted(iterable, /, *, key=None, reverse=False)\<close>: \<open>key\<close> is keyword-only, so a call
  with a second positional argument raises \<open>TypeError\<close> before anything is sorted.
\<close>

definition sorted_two_positional :: "'a list \<Rightarrow> ('a \<Rightarrow> 'k) \<Rightarrow> error + 'a list" where
  "sorted_two_positional iterable arg2 = Inl (TypeError ''sorted expected 1 argument, got 2'')"

text \<open>\<open>itertools.groupby(data, key)\<close>: the runs of consecutive elements of equal key.\<close>

function groupby :: "'a list \<Rightarrow> ('a \<Rightarrow> 'k) \<Rightarrow> ('k \<times> 'a list) list" where
  "groupby [] key = []"
| "groupby (x # xs) key =
     (key x, x # takeWhile (\<lambda>y. key y = key x) xs)
       # groupby (dropWhile (\<lambda>y. key y = key x) xs) key"
  by pat_completeness auto
termination
  by (relation "measure (\<lambda>(xs, key). length xs)") (auto simp: length_dropWhile_le less_Suc_eq_le)

text \<open>
  \<open>_get_grouped_by(attribute)\<close>; \<open>get_attribute\<close> is \<open>operator.attrgetter(attribute)\<close>,
  given with the attribute's name.
\<close>

definition get_grouped_by ::
  "GDScriptClass list \<Rightarrow> string \<Rightarrow> (GDScriptClass \<Rightarrow> 'k) \<Rightarrow> error + GDScriptClass list list" where
  "get_grouped_by self attribute get_attribute =
     (if self = [] \<or> attribute \<notin> set GDScriptClass_fields then Inr []
      else andthen (sorted_two_positional self get_attribute) (\<lambda>data.
           Inr (map snd (groupby data get_attribute))))"

definition get_grouped_by_category :: "GDScriptClass list \<Rightarrow> error + GDScriptClass list list" where
  "get_grouped_by_category self = get_grouped_by self ''category'' cls_category"

section \<open>The renderer (\<open>convert_to_markdown.py\<close>)\<close>

text \<open>
  Modelled from the spec: \<open>command_line.OutputFormats\<close>, whose declaration is not among
  the sources. The renderer names its members \<open>MARDKOWN\<close> (the plain dialect) and
  \<open>HUGO\<close> (the augmented dialect); \<open>arguments.format\<close> is an attribute of an untyped
  \<open>Namespace\<close>, and \<open>OTHER\<close> stands for any value that is neither.
\<close>

datatype OutputFormats = MARDKOWN | HUGO | OTHER string

record Namespace =
  ns_format :: OutputFormats

record MarkdownDocument =
  doc_title :: string
  doc_content :: "string list"

text \<open>
  The functions imported from \<open>make_markdown\<close> and \<open>hugo\<close>, which are not among the
  sources, are parameters of the renderer. \<open>hugo_front_matter gdscript arguments\<close> is
  \<open>HugoFrontMatter.from_data(gdscript, arguments).as_string_list()\<close>.
\<close>

record helpers =
  make_heading :: "string \<Rightarrow> nat \<Rightarrow> string list"
  make_bold :: "string \<Rightarrow> string"
  make_code_block :: "string \<Rightarrow> string"
  surround_with_html :: "string \<Rightarrow> string \<Rightarrow> string"
  make_table_row :: "string list \<Rightarrow> string"
  make_table_header :: "string list \<Rightarrow> string list"
  wrap_in_newlines :: "string list \<Rightarrow> string list"
  make_comment :: "string \<Rightarrow> string"
  highlight_code :: "string \<Rightarrow> string"
  hugo_front_matter :: "GDScriptClass \<Rightarrow> Namespace \<Rightarrow> string list"

text \<open>
  Modelled from the spec: \<open>MarkdownSection(title, level, content).as_text()\<close>, of the
  missing module \<open>make_markdown\<close>: a titled section (its heading, then its content) that
  is entirely omitted when its content list is empty.
\<close>

definition section_as_text :: "helpers \<Rightarrow> string \<Rightarrow> nat \<Rightarrow> string list \<Rightarrow> string list" where
  "section_as_text h title level content =
     (if content = [] then [] else make_heading h title level @ content)"

text \<open>\<open>Function.summarize\<close>, \<open>Member.summarize\<close>, \<open>GDScriptClass.extends_as_string\<close>\<close>

definition function_summarize :: "Function \<Rightarrow> string list" where
  "function_summarize f = [fn_return_type f, fn_signature f]"

definition member_summarize :: "Member \<Rightarrow> string list" where
  "member_summarize m = [mem_type m, mem_name m]"

definition extends_as_string :: "GDScriptClass \<Rightarrow> string" where
  "extends_as_string gdscript = join '' < '' (cls_extends gdscript)"

definition summarize_members :: "helpers \<Rightarrow> GDScriptClass \<Rightarrow> string list" where
  "summarize_members h gdscript =
     (if cls_members gdscript = [] then []
      else make_table_header h [''Type'', ''Name'']
           @ map (\<lambda>member. make_table_row h (member_summarize member)) (cls_members gdscript))"

definition summarize_methods :: "helpers \<Rightarrow> GDScriptClass \<Rightarrow> string list" where
  "summarize_methods h gdscript =
     make_table_header h [''Type'', ''Name'']
     @ map (\<lambda>function. make_table_row h (function_summarize function)) (cls_functions gdscript)"

definition write_signals :: "helpers \<Rightarrow> Signal list \<Rightarrow> string list" where
  "write_signals h signals =
     (if signals = [] then []
      else wrap_in_newlines h (map (\<lambda>s. ''- '' @ sig_signature s) signals))"

definition write_enum :: "helpers \<Rightarrow> OutputFormats \<Rightarrow> Enumeration \<Rightarrow> string list" where
  "write_enum h output_format enum =
     make_heading h (enum_name enum) 3
     @ (if output_format = HUGO then [highlight_code h (enum_signature enum), []]
        else [make_code_block h (enum_signature enum), []])
     @ [enum_description enum]"

definition write_enums :: "helpers \<Rightarrow> Enumeration list \<Rightarrow> OutputFormats \<Rightarrow> string list" where
  "write_enums h enums output_format = concat (map (write_enum h output_format) enums)"

text \<open>
  \<open>write_member\<close>: the guard of the setter/getter table is the source's
  \<open>member.setter or member.setter\<close>; a string is true when it is not empty.
\<close>

definition write_member :: "helpers \<Rightarrow> OutputFormats \<Rightarrow> Member \<Rightarrow> string list" where
  "write_member h output_format member =
     make_heading h (mem_name member) 3
     @ (if output_format = HUGO then [highlight_code h (mem_signature member), []]
        else [make_code_block h (mem_signature member), []])
     @ (if mem_setter member \<noteq> [] \<or> mem_setter member \<noteq> [] then
          (if mem_setter member \<noteq> [] then [make_table_row h [''Setter'', mem_setter member]]
           else [])
          @ (if mem_getter member \<noteq> [] then [make_table_row h [''Getter'', mem_getter member]]
             else [])
          @ [[]]
        else [])
     @ [mem_description member]"

definition write_members :: "helpers \<Rightarrow> Member list \<Rightarrow> OutputFormats \<Rightarrow> string list" where
  "write_members h members output_format = concat (map (write_member h output_format) members)"

definition write_function :: "helpers \<Rightarrow> OutputFormats \<Rightarrow> Function \<Rightarrow> string list" where
  "write_function h output_format function =
     (let heading0 = fn_name function;
          heading1 = (if fn_kind function = VIRTUAL
                      then heading0 @ '' '' @ surround_with_html h ''(virtual)'' ''small''
                      else heading0);
          heading = (if fn_kind function = STATIC
                     then heading1 @ '' '' @ surround_with_html h ''(static)'' ''small''
                     else heading1)
      in make_heading h heading 3
         @ (if output_format = HUGO then [highlight_code h (fn_signature function), []]
            else [make_code_block h (fn_signature function), []])
         @ (if fn_description function \<noteq> [] then [[], fn_description function] else []))"

definition write_functions :: "helpers \<Rightarrow> Function list \<Rightarrow> OutputFormats \<Rightarrow> string list" where
  "write_functions h functions output_format =
     concat (map (write_function h output_format) functions)"

definition notice :: string where
  "notice = ''Auto-generated from JSON by GDScript docs maker. Do not edit this document directly.''"

text \<open>
  The lines that \<open>as_markdown\<close> appends after the optional front matter, the notice and
  the optional title: the \<open>Extends\<close> line and the seven sections, in the source's order.
\<close>

definition class_sections :: "helpers \<Rightarrow> GDScriptClass \<Rightarrow> OutputFormats \<Rightarrow> string list" where
  "class_sections h gdscript output_format =
     [make_bold h ''Extends:'' @ '' '' @ extends_as_string gdscript]
     @ section_as_text h ''Description'' 2 [cls_description gdscript]
     @ section_as_text h ''Properties'' 2 (summarize_members h gdscript)
     @ section_as_text h ''Methods'' 2 (summarize_methods h gdscript)
     @ section_as_text h ''Signals'' 2 (write_signals h (cls_signals gdscript))
     @ section_as_text h ''Enumerations'' 2 (write_enums h (cls_enums gdscript) output_format)
     @ section_as_text h ''Property Descriptions'' 2
         (write_members h (cls_members gdscript) output_format)
     @ section_as_text h ''Method Descriptions'' 2
         (write_functions h (cls_functions gdscript) output_format)"

definition as_markdown :: "helpers \<Rightarrow> GDScriptClass \<Rightarrow> Namespace \<Rightarrow> MarkdownDocument" where
  "as_markdown h gdscript arguments =
     (let output_format = ns_format arguments;
          name = (if ''abstract'' \<in> set (cls_tags gdscript)
                  then cls_name gdscript @ '' '' @ surround_with_html h ''(abstract)'' ''small''
                  else cls_name gdscript);
          content0 = (if output_format = HUGO then hugo_front_matter h gdscript arguments
                      else []);
          content1 = content0 @ [make_comment h notice @ [newline]];
          content2 = (if output_format = MARDKOWN then content1 @ make_heading h name 1
                      else content1);
          content = content2 @ class_sections h gdscript output_format
      in \<lparr>doc_title = cls_name gdscript, doc_content = content\<rparr>)"

definition convert_to_markdown ::
  "helpers \<Rightarrow> GDScriptClass list \<Rightarrow> Namespace \<Rightarrow> MarkdownDocument list" where
  "convert_to_markdown h classes arguments = map (\<lambda>entry. as_markdown h entry arguments) classes"

section \<open>The claims' own vocabulary\<close>

text \<open>
  A metadata line: a line whose trimmed, lower-cased form starts with the keyword
  followed by a colon.
\<close>

definition starts_with_keyword :: "string \<Rightarrow> string \<Rightarrow> bool" where
  "starts_with_keyword key line = startswith (lower (strip line)) (key @ '':'')"

text \<open>
  A method entry is complete when every key but \<open>rpc_mode\<close> is present, in the entry and
  in each of its argument entries.
\<close>

definition complete_argument :: "argument_entry \<Rightarrow> bool" where
  "complete_argument a = (ae_name a \<noteq> None \<and> ae_type a \<noteq> None)"

definition complete_method :: "method_entry \<Rightarrow> bool" where
  "complete_method e =
     (me_name e \<noteq> None \<and> me_signature e \<noteq> None \<and> me_description e \<noteq> None \<and>
      me_return_type e \<noteq> None \<and>
      (case me_arguments e of None \<Rightarrow> False | Some args \<Rightarrow> list_all complete_argument args))"

text \<open>
  The tags extracted from the description of a method entry, none when the entry has no
  description.
\<close>

definition entry_tags :: "method_entry \<Rightarrow> string list" where
  "entry_tags e =
     (case me_description e of None \<Rightarrow> [] | Some d \<Rightarrow> fst (snd (get_metadata d)))"

text \<open>
  The exclusion rule in the specification's words: the name is a built-in callback, or it
  is the constructor name with no declared argument, or it starts with an underscore and
  the entry is not virtual (tagged \<open>virtual\<close> and not from the static-functions list).
\<close>

definition spec_virtual :: "bool \<Rightarrow> method_entry \<Rightarrow> bool" where
  "spec_virtual from_static_list e = (''virtual'' \<in> set (entry_tags e) \<and> \<not> from_static_list)"

definition spec_excluded :: "bool \<Rightarrow> method_entry \<Rightarrow> bool" where
  "spec_excluded from_static_list e =
     (case me_name e of
        None \<Rightarrow> False
      | Some n \<Rightarrow>
          n \<in> set BUILTIN_VIRTUAL_CALLBACKS
          \<or> (n = ''_init'' \<and> me_arguments e = Some [])
          \<or> (take 1 n = ''_'' \<and> \<not> spec_virtual from_static_list e))"

text \<open>
  \<open>first_replaced s old new r\<close>: \<open>r\<close> is \<open>s\<close> with its leftmost occurrence of \<open>old\<close>
  replaced by \<open>new\<close>, and \<open>s\<close> itself when \<open>old\<close> does not occur in it.
\<close>

definition first_replaced :: "string \<Rightarrow> string \<Rightarrow> string \<Rightarrow> string \<Rightarrow> bool" where
  "first_replaced s old new r =
     (if \<exists>pre post. s = pre @ old @ post
      then \<exists>pre post. s = pre @ old @ post
             \<and> (\<forall>pre' post'. s = pre' @ old @ post' \<longrightarrow> length pre \<le> length pre')
             \<and> r = pre @ new @ post
      else r = s)"

text \<open>
  The two textual substitutions of a method entry, as a relation between the entry and
  the function built from it.
\<close>

definition null_rewritten :: "method_entry \<Rightarrow> Function \<Rightarrow> bool" where
  "null_rewritten e f =
     (\<exists>sg rt. me_signature e = Some sg \<and> me_return_type e = Some rt
        \<and> first_replaced rt ''null'' ''void'' (fn_return_type f)
        \<and> first_replaced sg ''-> null'' ''-> void'' (fn_signature f))"

text \<open>The value of \<open>rpc_mode\<close> in the function built from an entry.\<close>

definition rpc_mode_of :: "method_entry \<Rightarrow> int" where
  "rpc_mode_of e = (case me_rpc_mode e of None \<Rightarrow> 0 | Some r \<Rightarrow> r)"

text \<open>
  The keys that the builder needs and does not find, in the order in which it reads them.
  \<open>absent key v\<close> is the key when the dictionary does not have it; \<open>entries v\<close> are the
  entries of a list-valued key, none when the key is absent. An entry that the builder
  skips needs only the keys read before the skip: the name of a method that is a built-in
  callback, the name and the arguments of a constructor without arguments, the name and
  the description of a private method, the name of a private member, the data type of a
  constant that is not a dictionary.
\<close>

definition absent :: "string \<Rightarrow> 'a option \<Rightarrow> string list" where
  "absent key v = (case v of None \<Rightarrow> [key] | Some x \<Rightarrow> [])"

definition entries :: "'a list option \<Rightarrow> 'a list" where
  "entries v = (case v of None \<Rightarrow> [] | Some xs \<Rightarrow> xs)"

definition argument_missing :: "argument_entry \<Rightarrow> string list" where
  "argument_missing a = absent ''name'' (ae_name a) @ absent ''type'' (ae_type a)"

definition method_missing :: "bool \<Rightarrow> method_entry \<Rightarrow> string list" where
  "method_missing from_static_list e =
     (case me_name e of
        None \<Rightarrow> [''name'']
      | Some n \<Rightarrow>
          if n \<in> set BUILTIN_VIRTUAL_CALLBACKS then []
          else if n = TYPE_CONSTRUCTOR \<and> me_arguments e = None then [''arguments'']
          else if n = TYPE_CONSTRUCTOR \<and> me_arguments e = Some [] then []
          else (case me_description e of
                  None \<Rightarrow> [''description'']
                | Some d \<Rightarrow>
                    if startswith n ''_''
                       \<and> \<not> (''virtual'' \<in> set (fst (snd (get_metadata d))) \<and> \<not> from_static_list)
                    then []
                    else absent ''signature'' (me_signature e)
                         @ absent ''return_type'' (me_return_type e)
                         @ absent ''arguments'' (me_arguments e)
                         @ concat (map argument_missing (entries (me_arguments e)))))"

definition member_missing :: "member_entry \<Rightarrow> string list" where
  "member_missing e =
     (case mbe_name e of
        None \<Rightarrow> [''name'']
      | Some n \<Rightarrow>
          if startswith n ''_'' then []
          else absent ''description'' (mbe_description e)
               @ absent ''signature'' (mbe_signature e)
               @ absent ''data_type'' (mbe_data_type e)
               @ absent ''default_value'' (mbe_default_value e)
               @ absent ''export'' (mbe_export e)
               @ absent ''setter'' (mbe_setter e)
               @ absent ''getter'' (mbe_getter e))"

definition signal_missing :: "signal_entry \<Rightarrow> string list" where
  "signal_missing e =
     absent ''signature'' (se_signature e) @ absent ''name'' (se_name e)
     @ absent ''description'' (se_description e) @ absent ''arguments'' (se_arguments e)"

definition constant_missing :: "constant_entry \<Rightarrow> string list" where
  "constant_missing e =
     absent ''data_type'' (ce_data_type e)
     @ (if ce_data_type e = Some ''Dictionary''
        then absent ''signature'' (ce_signature e) @ absent ''name'' (ce_name e)
             @ absent ''description'' (ce_description e) @ absent ''value'' (ce_value e)
        else [])"

definition class_missing :: "class_entry \<Rightarrow> string list" where
  "class_missing d =
     absent ''description'' (d_description d)
     @ absent ''name'' (d_name d)
     @ absent ''extends_class'' (d_extends_class d)
     @ absent ''path'' (d_path d)
     @ absent ''methods'' (d_methods d)
     @ concat (map (method_missing False) (entries (d_methods d)))
     @ absent ''static_functions'' (d_static_functions d)
     @ concat (map (method_missing True) (entries (d_static_functions d)))
     @ absent ''members'' (d_members d)
     @ concat (map member_missing (entries (d_members d)))
     @ absent ''signals'' (d_signals d)
     @ concat (map signal_missing (entries (d_signals d)))
     @ absent ''constants'' (d_constants d)
     @ concat (map constant_missing (entries (d_constants d)))"

text \<open>
  A computation reports a list of missing keys when it returns a value if the list is
  empty, and raises \<open>KeyError\<close> on the first key of the list otherwise.
\<close>

definition reports :: "error + 'a \<Rightarrow> string list \<Rightarrow> bool" where
  "reports m keys = (case keys of [] \<Rightarrow> \<not> isl m | k # ks \<Rightarrow> m = Inl (KeyError k))"

section \<open>Example inputs\<close>

text \<open>
  A description with a tags line between two other lines, followed by a category line;
  the keywords are written in capitals and with leading blanks.
\<close>

definition sample_description :: string where
  "sample_description =
     ''Does things.\<newline>  TAGS: a , virtual\<newline>More text: here.\<newline>Category:  Tools ''"

text \<open>
  A class record with five method entries and two static functions. Of the methods, the
  built-in callback \<open>_ready\<close> has no other key than its name, the constructor without
  arguments has its name and its arguments only, and the private \<open>_helper\<close> its name and
  its description only; the constructor with one argument is tagged \<open>virtual\<close>. Of the
  static functions, \<open>make\<close> is tagged \<open>virtual\<close> too, and \<open>_hidden\<close> is private.
\<close>

definition sample_record :: class_entry where
  "sample_record =
     \<lparr>d_name = Some ''Foo'', d_extends_class = Some [''Node''],
      d_description = Some ''Does things.\<newline>Tags: util\<newline>Category: Tools'',
      d_path = Some ''foo.gd'',
      d_methods = Some
        [\<lparr>me_name = Some ''_ready'', me_signature = None, me_description = None,
          me_return_type = None, me_arguments = None, me_rpc_mode = None\<rparr>,
         \<lparr>me_name = Some ''_init'', me_signature = None, me_description = None,
          me_return_type = None, me_arguments = Some [], me_rpc_mode = None\<rparr>,
         \<lparr>me_name = Some ''_init'', me_signature = Some ''_init(size: int) -> null'',
          me_description = Some ''Tags: virtual'', me_return_type = Some ''null'',
          me_arguments = Some [\<lparr>ae_name = Some ''size'', ae_type = Some ''int''\<rparr>],
          me_rpc_mode = Some 0\<rparr>,
         \<lparr>me_name = Some ''_helper'', me_signature = None,
          me_description = Some ''Internal.'', me_return_type = None,
          me_arguments = None, me_rpc_mode = None\<rparr>,
         \<lparr>me_name = Some ''get_or_null'',
          me_signature = Some ''get_or_null(default = null) -> null'',
          me_description = Some ''Returns null when missing.'',
          me_return_type = Some ''null'',
          me_arguments = Some [\<lparr>ae_name = Some ''default'', ae_type = Some ''Variant''\<rparr>],
          me_rpc_mode = Some 2\<rparr>],
      d_static_functions = Some
        [\<lparr>me_name = Some ''make'', me_signature = Some ''make() -> Foo'',
          me_description = Some ''Makes it.\<newline>tags: virtual'',
          me_return_type = Some ''Foo'', me_arguments = Some [], me_rpc_mode = None\<rparr>,
         \<lparr>me_name = Some ''_hidden'', me_signature = None,
          me_description = Some ''tags: virtual'', me_return_type = None,
          me_arguments = None, me_rpc_mode = None\<rparr>],
      d_members = Some [], d_signals = Some [], d_constants = Some []\<rparr>"

text \<open>A class record whose only method entry is a built-in callback with its name alone.\<close>

definition callback_record :: class_entry where
  "callback_record =
     \<lparr>d_name = Some ''Foo'', d_extends_class = Some [''Node''],
      d_description = Some ''Does things.'', d_path = Some ''foo.gd'',
      d_methods = Some [\<lparr>me_name = Some ''_ready'', me_signature = None,
                         me_description = None, me_return_type = None,
                         me_arguments = None, me_rpc_mode = None\<rparr>],
      d_static_functions = Some [], d_members = Some [], d_signals = Some [],
      d_constants = Some []\<rparr>"

text \<open>Two complete method entries, the first without \<open>rpc_mode\<close>.\<close>

definition run_entry :: method_entry where
  "run_entry =
     \<lparr>me_name = Some ''run'', me_signature = Some ''run() -> null'',
      me_description = Some ''Runs.'', me_return_type = Some ''null'',
      me_arguments = Some [], me_rpc_mode = None\<rparr>"

definition sync_entry :: method_entry where
  "sync_entry =
     \<lparr>me_name = Some ''sync_state'', me_signature = Some ''sync_state(state: int) -> int'',
      me_description = Some ''Sends the state.'', me_return_type = Some ''int'',
      me_arguments = Some [\<lparr>ae_name = Some ''state'', ae_type = Some ''int''\<rparr>],
      me_rpc_mode = Some 2\<rparr>"

text \<open>
  A class record with every top-level key whose nested entries are all skipped by the
  builder: a built-in callback with no other key than its name, a private member with
  no other key than its name, and a constant that is not a dictionary with no other key
  than its data type.
\<close>

definition skipped_entries_class :: class_entry where
  "skipped_entries_class =
     \<lparr>d_name = Some ''Foo'', d_extends_class = Some [''Node''],
      d_description = Some ''Does things.'', d_path = Some ''foo.gd'',
      d_methods = Some [\<lparr>me_name = Some ''_ready'', me_signature = None,
                         me_description = None, me_return_type = None,
                         me_arguments = None, me_rpc_mode = None\<rparr>],
      d_static_functions = Some [],
      d_members = Some [\<lparr>mbe_name = Some ''_cache'', mbe_signature = None,
                         mbe_description = None, mbe_data_type = None,
                         mbe_default_value = None, mbe_export = None,
                         mbe_setter = None, mbe_getter = None\<rparr>],
      d_signals = Some [],
      d_constants = Some [\<lparr>ce_data_type = Some ''int'', ce_signature = None,
                           ce_name = None, ce_description = None, ce_value = None\<rparr>]\<rparr>"

text \<open>A class record without the keys \<open>path\<close> and \<open>signals\<close>.\<close>

definition class_without_path :: class_entry where
  "class_without_path =
     \<lparr>d_name = Some ''Foo'', d_extends_class = Some [''Node''],
      d_description = Some ''Does things.'', d_path = None,
      d_methods = Some [], d_static_functions = Some [], d_members = Some [],
      d_signals = None, d_constants = Some []\<rparr>"

text \<open>
  An instance of the imported helpers, to evaluate the renderer on examples: headings
  made of number signs, table rows separated by vertical bars, fenced code blocks.
\<close>

definition sample_helpers :: helpers where
  "sample_helpers =
     \<lparr>make_heading = (\<lambda>line level. [replicate level CHR ''#'' @ '' '' @ line, []]),
      make_bold = (\<lambda>text. ''**'' @ text @ ''**''),
      make_code_block = (\<lambda>text. ''~~~'' @ [newline] @ text @ [newline] @ ''~~~''),
      surround_with_html = (\<lambda>text tag. ''<'' @ tag @ ''>'' @ text @ ''</'' @ tag @ ''>''),
      make_table_row = (\<lambda>cells. join '' | '' cells),
      make_table_header =
        (\<lambda>cells. [join '' | '' cells, join '' | '' (map (\<lambda>cell. ''---'') cells)]),
      wrap_in_newlines = (\<lambda>lines. [] # lines @ [[]]),
      make_comment = (\<lambda>text. ''<!-- '' @ text @ '' -->''),
      highlight_code = (\<lambda>text. ''{{< highlight gdscript >}}'' @ text @ ''{{< / highlight >}}''),
      hugo_front_matter =
        (\<lambda>gdscript arguments. [''---'', ''title: '' @ cls_name gdscript, ''---''])\<rparr>"

definition getter_only_member :: Member where
  "getter_only_member =
     \<lparr>mem_signature = ''var health: int'', mem_name = ''health'',
      mem_description = ''Remaining health.'', mem_type = ''int'',
      mem_default_value = ''10'', mem_is_exported = False,
      mem_setter = [], mem_getter = ''get_health'', mem_tags = []\<rparr>"

definition bare_class :: GDScriptClass where
  "bare_class =
     \<lparr>cls_name = ''Foo'', cls_extends = [''Node''], cls_description = ''Does things.'',
      cls_path = ''foo.gd'', cls_functions = [], cls_members = [], cls_signals = [],
      cls_enums = [], cls_tags = [''util''], cls_category = ''Tools''\<rparr>"

definition sample_class :: GDScriptClass where
  "sample_class =
     \<lparr>cls_name = ''Player'', cls_extends = [''KinematicBody2D'', ''Node''],
      cls_description = ''The player.'', cls_path = ''player.gd'',
      cls_functions = [],
      cls_members = [getter_only_member], cls_signals = [], cls_enums = [],
      cls_tags = [], cls_category = []\<rparr>"

section \<open>Properties of the metadata extraction\<close>

subsection \<open>The text after the colon of a metadata line\<close>

lemma find_str_first:
  "c \<notin> set xs \<Longrightarrow> find_str (xs @ c # ys) [c] = int (length xs)"
  by (induction xs) (auto simp: startswith_def Let_def)

lemma colon_not_space: "\<not> py_isspace CHR '':''"
  by (simp add: py_isspace_def)

lemma lower_colon:
  assumes "py_lower_char c = CHR '':''"
  shows "c = CHR '':''"
proof (rule ccontr)
  assume n: "c \<noteq> CHR '':''"
  let ?n = "of_char c :: nat"
  have b: "?n < 256" by simp
  from assms n have u: "(65 \<le> ?n \<and> ?n \<le> 90) \<or> (192 \<le> ?n \<and> ?n \<le> 222 \<and> ?n \<noteq> 215)"
    by (auto simp: py_lower_char_def Let_def split: if_splits)
  with assms have "char_of (?n + 32) = CHR '':''"
    by (simp add: py_lower_char_def Let_def)
  then have "(of_char (char_of (?n + 32) :: char) :: nat) = of_char CHR '':''" by simp
  then have "(?n + 32) mod 256 = 58" by simp
  with u show False by auto
qed

lemma keyword_line:
  assumes "starts_with_keyword key l" and "CHR '':'' \<notin> set key"
  shows "\<exists>ws kw. l = ws @ kw @ '':'' @ after_colon l \<and> list_all py_isspace ws
           \<and> lower kw = key"
proof -
  let ?ws = "takeWhile py_isspace l"
  let ?m = "dropWhile py_isspace l"
  let ?t = "rev (takeWhile py_isspace (rev ?m))"
  have l: "l = ?ws @ ?m" by simp
  have "rev ?m = takeWhile py_isspace (rev ?m) @ dropWhile py_isspace (rev ?m)" by simp
  then have "rev (rev ?m) = rev (takeWhile py_isspace (rev ?m) @ dropWhile py_isspace (rev ?m))"
    by (rule arg_cong)
  then have m: "?m = strip l @ ?t"
    by (simp only: rev_rev_ident rev_append strip_def)
  let ?p = "take (length key + 1) (strip l)"
  let ?r = "drop (length key + 1) (strip l)"
  have s: "strip l = ?p @ ?r" by simp
  from assms(1) have "map py_lower_char ?p = key @ '':''"
    by (simp add: starts_with_keyword_def startswith_def lower_def take_map)
  then obtain kw c where p: "?p = kw @ [c]" and kw: "map py_lower_char kw = key"
    and c: "py_lower_char c = CHR '':''"
    by (auto simp: map_eq_append_conv map_eq_Cons_conv)
  from c have c': "c = CHR '':''" by (rule lower_colon)
  have nk: "CHR '':'' \<notin> set kw"
  proof
    assume "CHR '':'' \<in> set kw"
    then have "py_lower_char CHR '':'' \<in> set (map py_lower_char kw)" by simp
    moreover have "py_lower_char CHR '':'' = CHR '':''" by (simp add: py_lower_char_def)
    ultimately show False using kw assms(2) by simp
  qed
  have nw: "CHR '':'' \<notin> set ?ws"
  proof
    assume "CHR '':'' \<in> set ?ws"
    then have "py_isspace CHR '':''" by (rule set_takeWhileD[THEN conjunct2])
    with colon_not_space show False by simp
  qed
  from p have "?p @ ?r = (kw @ [c]) @ ?r" by simp
  then have s': "strip l = kw @ CHR '':'' # ?r" by (simp add: c')
  have "l = ?ws @ strip l @ ?t"
    by (subst m[symmetric]) (rule l)
  also have "?ws @ strip l @ ?t = ?ws @ (kw @ CHR '':'' # ?r) @ ?t"
    by (simp only: s'[symmetric])
  also have "\<dots> = (?ws @ kw) @ CHR '':'' # (?r @ ?t)" by simp
  finally have d: "l = (?ws @ kw) @ CHR '':'' # (?r @ ?t)" .
  from nk nw have "CHR '':'' \<notin> set (?ws @ kw)" by simp
  then have "find_str ((?ws @ kw) @ CHR '':'' # (?r @ ?t)) '':'' = int (length (?ws @ kw))"
    by (rule find_str_first)
  with d have f: "find_str l '':'' = int (length (?ws @ kw))" by simp
  have "after_colon l = drop (length (?ws @ kw) + 1) l"
    by (simp add: after_colon_def slice_from_def f nat_add_distrib)
  also have "\<dots> = drop (length (?ws @ kw) + 1) ((?ws @ kw) @ CHR '':'' # (?r @ ?t))"
    using d by simp
  also have "\<dots> = ?r @ ?t" by simp
  finally have a: "after_colon l = ?r @ ?t" .
  have "l = ?ws @ kw @ '':'' @ after_colon l"
    using d by (simp add: a)
  moreover have "list_all py_isspace ?ws"
    by (simp add: list_all_iff) (metis set_takeWhileD)
  moreover have "lower kw = key" by (simp add: lower_def kw)
  ultimately show ?thesis by blast
qed

subsection \<open>The loop over the lines\<close>

lemma keywords_exclusive:
  "starts_with_keyword ''tags'' l \<Longrightarrow> \<not> starts_with_keyword ''category'' l"
  by (cases "lower (strip l)") (simp_all add: starts_with_keyword_def startswith_def)

lemma get_metadata_loop_spec:
  "get_metadata_loop ls tags category acc =
     (acc @ filter (\<lambda>l. \<not> starts_with_keyword ''tags'' l \<and> \<not> starts_with_keyword ''category'' l) ls,
      (if filter (starts_with_keyword ''tags'') ls = [] then tags
       else map strip (split (after_colon (last (filter (starts_with_keyword ''tags'') ls)))
              CHR '','')),
      (if filter (starts_with_keyword ''category'') ls = [] then category
       else strip (after_colon (last (filter (starts_with_keyword ''category'') ls)))))"
proof (induction ls arbitrary: tags category acc)
  case Nil
  show ?case by simp
next
  case (Cons l ls)
  have t: "startswith (lower (strip l)) ''tags:'' = starts_with_keyword ''tags'' l"
    and c: "startswith (lower (strip l)) ''category:'' = starts_with_keyword ''category'' l"
    by (simp_all add: starts_with_keyword_def)
  show ?case
  proof (cases "starts_with_keyword ''tags'' l")
    case True
    with keywords_exclusive have "\<not> starts_with_keyword ''category'' l" by blast
    with True show ?thesis
      by (simp add: t c Cons.IH)
  next
    case False
    then show ?thesis
      by (cases "starts_with_keyword ''category'' l") (simp_all add: t c Cons.IH)
  qed
qed

subsection \<open>The metadata of a description\<close>

text \<open>
  Claim C1. For every description with a tags line and a category line among its lines,
  in any order and at any position, \<open>get_metadata\<close> returns the other lines, in order,
  joined by newlines, as description; as tags, the text after the colon of the tags line
  split on commas, each entry trimmed; and as category, the trimmed text after the colon
  of the category line. With several tags lines or several category lines the last one
  counts. A metadata line is a line that is, after some blanks, the keyword in any
  letter case followed by a colon, and the text after the colon is the rest of the line.
\<close>

theorem metadata_extracted:
  assumes "\<exists>l\<in>set (split d newline). starts_with_keyword ''tags'' l"
    and "\<exists>l\<in>set (split d newline). starts_with_keyword ''category'' l"
  shows "get_metadata d =
      (join [newline]
         (filter (\<lambda>l. \<not> starts_with_keyword ''tags'' l \<and> \<not> starts_with_keyword ''category'' l)
            (split d newline)),
       map strip
         (split (after_colon (last (filter (starts_with_keyword ''tags'') (split d newline))))
            CHR '',''),
       strip (after_colon (last (filter (starts_with_keyword ''category'') (split d newline)))))
    \<and> (\<forall>l. starts_with_keyword ''tags'' l \<longrightarrow>
          (\<exists>ws kw. l = ws @ kw @ '':'' @ after_colon l \<and> list_all py_isspace ws
             \<and> lower kw = ''tags''))
    \<and> (\<forall>l. starts_with_keyword ''category'' l \<longrightarrow>
          (\<exists>ws kw. l = ws @ kw @ '':'' @ after_colon l \<and> list_all py_isspace ws
             \<and> lower kw = ''category''))"
proof (intro conjI allI impI)
  from assms(1) have t: "filter (starts_with_keyword ''tags'') (split d newline) \<noteq> []"
    by (simp add: filter_empty_conv)
  from assms(2) have c: "filter (starts_with_keyword ''category'') (split d newline) \<noteq> []"
    by (simp add: filter_empty_conv)
  show "get_metadata d =
      (join [newline]
         (filter (\<lambda>l. \<not> starts_with_keyword ''tags'' l \<and> \<not> starts_with_keyword ''category'' l)
            (split d newline)),
       map strip
         (split (after_colon (last (filter (starts_with_keyword ''tags'') (split d newline))))
            CHR '',''),
       strip (after_colon (last (filter (starts_with_keyword ''category'') (split d newline)))))"
    by (simp add: get_metadata_def get_metadata_loop_spec t c)
next
  fix l assume "starts_with_keyword ''tags'' l"
  then show "\<exists>ws kw. l = ws @ kw @ '':'' @ after_colon l \<and> list_all py_isspace ws
             \<and> lower kw = ''tags''"
    by (rule keyword_line) simp
next
  fix l assume "starts_with_keyword ''category'' l"
  then show "\<exists>ws kw. l = ws @ kw @ '':'' @ after_colon l \<and> list_all py_isspace ws
             \<and> lower kw = ''category''"
    by (rule keyword_line) simp
qed

theorem metadata_extracted_witness:
  "split sample_description newline
     = [''Does things.'', ''  TAGS: a , virtual'', ''More text: here.'', ''Category:  Tools '']
   \<and> map (starts_with_keyword ''tags'') (split sample_description newline)
       = [False, True, False, False]
   \<and> map (starts_with_keyword ''category'') (split sample_description newline)
       = [False, False, False, True]
   \<and> get_metadata sample_description
       = (''Does things.\<newline>More text: here.'', [''a'', ''virtual''], ''Tools'')
   \<and> after_colon ''  TAGS: a , virtual'' = '' a , virtual''
   \<and> (\<exists>ws kw. ''  TAGS: a , virtual'' = ws @ kw @ '':'' @ after_colon ''  TAGS: a , virtual''
          \<and> list_all py_isspace ws \<and> lower kw = ''tags'')"
proof -
  have s: "split sample_description newline
     = [''Does things.'', ''  TAGS: a , virtual'', ''More text: here.'', ''Category:  Tools '']"
    by code_simp
  have t: "map (starts_with_keyword ''tags'') (split sample_description newline)
       = [False, True, False, False]"
    by code_simp
  have c: "map (starts_with_keyword ''category'') (split sample_description newline)
       = [False, False, False, True]"
    by code_simp
  have h1: "\<exists>l\<in>set (split sample_description newline). starts_with_keyword ''tags'' l"
    by code_simp
  have h2: "\<exists>l\<in>set (split sample_description newline). starts_with_keyword ''category'' l"
    by code_simp
  note r = metadata_extracted[OF h1 h2]
  have e: "(join [newline]
         (filter (\<lambda>l. \<not> starts_with_keyword ''tags'' l \<and> \<not> starts_with_keyword ''category'' l)
            (split sample_description newline)),
       map strip
         (split (after_colon (last (filter (starts_with_keyword ''tags'')
                                      (split sample_description newline))))
            CHR '',''),
       strip (after_colon (last (filter (starts_with_keyword ''category'')
                                   (split sample_description newline)))))
     = (''Does things.\<newline>More text: here.'', [''a'', ''virtual''], ''Tools'')"
    by code_simp
  from r[THEN conjunct1]
  have g: "get_metadata sample_description
       = (''Does things.\<newline>More text: here.'', [''a'', ''virtual''], ''Tools'')"
    by (simp only: e)
  have a: "after_colon ''  TAGS: a , virtual'' = '' a , virtual''"
    by code_simp
  have k: "starts_with_keyword ''tags'' ''  TAGS: a , virtual''"
    by code_simp
  note w = r[THEN conjunct2, THEN conjunct1, THEN spec, of "''  TAGS: a , virtual''",
             THEN mp, OF k]
  show ?thesis
    by (intro conjI s t c g a w)
qed

section \<open>Properties of the model builder\<close>

subsection \<open>Sequencing and subscripts\<close>

lemma andthen_Inl: "andthen (Inl e) f = Inl e"
  by (simp add: andthen_def)

lemma andthen_Inr: "andthen (Inr x) f = f x"
  by (simp add: andthen_def)

lemma getitem_Some: "getitem key (Some x) = Inr x"
  by (simp add: getitem_def)

lemma getitem_None: "getitem key None = Inl (KeyError key)"
  by (simp add: getitem_def)

lemma andthen_eq_Inr:
  "(andthen m f = Inr y) = (\<exists>x. m = Inr x \<and> f x = Inr y)"
  by (cases m) (simp_all add: andthen_def)

lemma getitem_eq_Inr: "(getitem key v = Inr x) = (v = Some x)"
  by (cases v) (simp_all add: getitem_def)

subsection \<open>One pass of the loop over the method entries\<close>

lemma get_function_fields:
  assumes "me_name e = Some n" "me_signature e = Some sg" "me_description e = Some d"
    "me_return_type e = Some rt" "me_arguments e = Some args"
    "get_metadata d = (desc, tags, cat)"
  shows "get_function e st =
     (if n \<in> set BUILTIN_VIRTUAL_CALLBACKS then Inr None
      else if n = TYPE_CONSTRUCTOR \<and> args = [] then Inr None
      else if startswith n ''_'' \<and> \<not> (''virtual'' \<in> set tags \<and> \<not> st) then Inr None
      else andthen (get_arguments args) (\<lambda>arguments.
        Inr (Some \<lparr>fn_signature = replace_first sg ''-> null'' ''-> void'',
                fn_kind = (if st then STATIC
                           else if ''virtual'' \<in> set tags \<and> \<not> st then VIRTUAL else METHOD),
                fn_name = n,
                fn_description = strip_chars desc [CHR '' '', newline],
                fn_return_type = replace_first rt ''null'' ''void'',
                fn_arguments = arguments,
                fn_rpc_mode = (case me_rpc_mode e of Some r \<Rightarrow> r | None \<Rightarrow> 0),
                fn_tags = tags\<rparr>)))"
proof (cases "n \<in> set BUILTIN_VIRTUAL_CALLBACKS")
  case True
  then show ?thesis unfolding get_function_def
    by (simp add: assms(1) andthen_Inr getitem_Some)
next
  case nb: False
  show ?thesis
  proof (cases "n = TYPE_CONSTRUCTOR \<and> args = []")
    case True
    then show ?thesis unfolding get_function_def
      by (simp add: nb assms(1,5) andthen_Inr getitem_Some)
  next
    case nc: False
    have c: "andthen (if n = TYPE_CONSTRUCTOR then Inr (args = []) else Inr False) k = k False"
      for k :: "bool \<Rightarrow> error + Function option"
      using nc by (cases "n = TYPE_CONSTRUCTOR") (simp_all add: andthen_Inr)
    have u: "get_function e st =
       (let is_virtual = (''virtual'' \<in> set tags \<and> \<not> st);
            is_private = (startswith n ''_'' \<and> \<not> is_virtual)
        in if is_private then Inr None
           else andthen (get_arguments args) (\<lambda>arguments.
        Inr (Some \<lparr>fn_signature = replace_first sg ''-> null'' ''-> void'',
                fn_kind = (if st then STATIC else if is_virtual then VIRTUAL else METHOD),
                fn_name = n,
                fn_description = strip_chars desc [CHR '' '', newline],
                fn_return_type = replace_first rt ''null'' ''void'',
                fn_arguments = arguments,
                fn_rpc_mode = (case me_rpc_mode e of Some r \<Rightarrow> r | None \<Rightarrow> 0),
                fn_tags = tags\<rparr>)))"
      unfolding get_function_def
      by (simp only: assms getitem_Some andthen_Inr nb if_False c prod.case Let_def)
    show ?thesis
      by (simp only: u nb nc if_False Let_def)
  qed
qed

lemma get_function_name:
  "get_function e st = Inr r \<Longrightarrow> \<exists>n. me_name e = Some n"
  by (cases "me_name e") (simp_all add: get_function_def getitem_None andthen_Inl)

lemma get_function_description:
  assumes "get_function e st = Inr (Some f)"
  shows "\<exists>d. me_description e = Some d"
proof (cases "me_description e")
  case None
  from assms obtain n where n: "me_name e = Some n" using get_function_name by blast
  have "get_function e st \<noteq> Inr (Some f)"
    unfolding get_function_def
    by (cases "me_arguments e"; cases "n \<in> set BUILTIN_VIRTUAL_CALLBACKS"; cases "n = TYPE_CONSTRUCTOR")
       (simp_all add: n None getitem_Some getitem_None andthen_Inr andthen_Inl)
  with assms show ?thesis by simp
qed simp

lemma get_function_rest:
  assumes "get_function e st = Inr (Some f)"
  shows "(\<exists>sg. me_signature e = Some sg) \<and> (\<exists>rt. me_return_type e = Some rt)
         \<and> (\<exists>args. me_arguments e = Some args)"
proof -
  from assms obtain n where n: "me_name e = Some n" using get_function_name by blast
  from assms obtain d where d: "me_description e = Some d"
    using get_function_description by blast
  obtain desc tags cat where m: "get_metadata d = (desc, tags, cat)"
    by (cases "get_metadata d") auto
  have "get_function e st \<noteq> Inr (Some f)"
    if "me_signature e = None \<or> me_return_type e = None \<or> me_arguments e = None"
    using that unfolding get_function_def
    by (cases "me_signature e"; cases "me_return_type e"; cases "me_arguments e";
        cases "n \<in> set BUILTIN_VIRTUAL_CALLBACKS"; cases "n = TYPE_CONSTRUCTOR";
        cases "startswith n ''_''"; cases "''virtual'' \<in> set tags"; cases st)
       (simp_all add: n d m getitem_Some getitem_None andthen_Inr andthen_Inl Let_def)
  with assms show ?thesis
    by (cases "me_signature e"; cases "me_return_type e"; cases "me_arguments e") auto
qed

lemma get_function_SomeE:
  assumes "get_function e st = Inr (Some f)"
  obtains n sg d rt args as desc tags cat where
    "me_name e = Some n" "me_signature e = Some sg" "me_description e = Some d"
    "me_return_type e = Some rt" "me_arguments e = Some args"
    "get_metadata d = (desc, tags, cat)" "get_arguments args = Inr as"
    "n \<notin> set BUILTIN_VIRTUAL_CALLBACKS" "\<not> (n = TYPE_CONSTRUCTOR \<and> args = [])"
    "\<not> (startswith n ''_'' \<and> \<not> (''virtual'' \<in> set tags \<and> \<not> st))"
    "f = \<lparr>fn_signature = replace_first sg ''-> null'' ''-> void'',
          fn_kind = (if st then STATIC
                     else if ''virtual'' \<in> set tags \<and> \<not> st then VIRTUAL else METHOD),
          fn_name = n,
          fn_description = strip_chars desc [CHR '' '', newline],
          fn_return_type = replace_first rt ''null'' ''void'',
          fn_arguments = as,
          fn_rpc_mode = (case me_rpc_mode e of Some r \<Rightarrow> r | None \<Rightarrow> 0),
          fn_tags = tags\<rparr>"
proof -
  from assms obtain n where n: "me_name e = Some n" using get_function_name by blast
  from assms obtain d where d: "me_description e = Some d"
    using get_function_description by blast
  from get_function_rest[OF assms] obtain sg rt args where
    r: "me_signature e = Some sg" "me_return_type e = Some rt" "me_arguments e = Some args"
    by blast
  obtain desc tags cat where m: "get_metadata d = (desc, tags, cat)"
    by (cases "get_metadata d") auto
  note u = get_function_fields[OF n r(1) d r(2) r(3) m, of st]
  have k1: "n \<notin> set BUILTIN_VIRTUAL_CALLBACKS"
  proof
    assume "n \<in> set BUILTIN_VIRTUAL_CALLBACKS"
    with assms u show False by simp
  qed
  have k2: "\<not> (n = TYPE_CONSTRUCTOR \<and> args = [])"
  proof
    assume "n = TYPE_CONSTRUCTOR \<and> args = []"
    with assms u k1 show False by simp
  qed
  have k3: "\<not> (startswith n ''_'' \<and> \<not> (''virtual'' \<in> set tags \<and> \<not> st))"
  proof
    assume a: "startswith n ''_'' \<and> \<not> (''virtual'' \<in> set tags \<and> \<not> st)"
    have "get_function e st = Inr None"
      using a k1 k2 by (simp add: u)
    with assms show False by simp
  qed
  have "get_function e st = andthen (get_arguments args) (\<lambda>arguments.
        Inr (Some \<lparr>fn_signature = replace_first sg ''-> null'' ''-> void'',
                fn_kind = (if st then STATIC
                           else if ''virtual'' \<in> set tags \<and> \<not> st then VIRTUAL else METHOD),
                fn_name = n,
                fn_description = strip_chars desc [CHR '' '', newline],
                fn_return_type = replace_first rt ''null'' ''void'',
                fn_arguments = arguments,
                fn_rpc_mode = (case me_rpc_mode e of Some r \<Rightarrow> r | None \<Rightarrow> 0),
                fn_tags = tags\<rparr>))"
    by (simp only: u k1 k2 k3 if_False)
  with assms obtain as where as: "get_arguments args = Inr as"
    and f: "Inr (Some \<lparr>fn_signature = replace_first sg ''-> null'' ''-> void'',
                fn_kind = (if st then STATIC
                           else if ''virtual'' \<in> set tags \<and> \<not> st then VIRTUAL else METHOD),
                fn_name = n,
                fn_description = strip_chars desc [CHR '' '', newline],
                fn_return_type = replace_first rt ''null'' ''void'',
                fn_arguments = as,
                fn_rpc_mode = (case me_rpc_mode e of Some r \<Rightarrow> r | None \<Rightarrow> 0),
                fn_tags = tags\<rparr>) = (Inr (Some f) :: error + Function option)"
    by (cases "get_arguments args") (simp_all only: andthen_Inl andthen_Inr sum.simps)
  from f have f': "f = \<lparr>fn_signature = replace_first sg ''-> null'' ''-> void'',
          fn_kind = (if st then STATIC
                     else if ''virtual'' \<in> set tags \<and> \<not> st then VIRTUAL else METHOD),
          fn_name = n,
          fn_description = strip_chars desc [CHR '' '', newline],
          fn_return_type = replace_first rt ''null'' ''void'',
          fn_arguments = as,
          fn_rpc_mode = (case me_rpc_mode e of Some r \<Rightarrow> r | None \<Rightarrow> 0),
          fn_tags = tags\<rparr>"
    by (simp only: sum.inject option.inject)
  from that[OF n r(1) d r(2) r(3) m as k1 k2 k3 f'] show thesis .
qed

subsection \<open>Replacing the first occurrence\<close>

lemma startswith_iff: "startswith s p \<longleftrightarrow> (\<exists>post. s = p @ post)"
proof
  assume "startswith s p"
  then have "s = p @ drop (length p) s"
    unfolding startswith_def by (metis append_take_drop_id)
  then show "\<exists>post. s = p @ post" ..
next
  assume "\<exists>post. s = p @ post"
  then show "startswith s p" unfolding startswith_def by auto
qed

lemma first_replaced_found:
  assumes "s = pre @ old @ post"
    and "\<forall>pre' post'. s = pre' @ old @ post' \<longrightarrow> length pre \<le> length pre'"
    and "r = pre @ new @ post"
  shows "first_replaced s old new r"
proof -
  have ex: "\<exists>pre post. s = pre @ old @ post"
    using assms(1) by (intro exI)
  have "\<exists>pre post. s = pre @ old @ post
          \<and> (\<forall>pre' post'. s = pre' @ old @ post' \<longrightarrow> length pre \<le> length pre')
          \<and> r = pre @ new @ post"
    by (rule exI[of _ pre], rule exI[of _ post], intro conjI, rule assms(1), rule assms(2),
        rule assms(3))
  with ex show ?thesis unfolding first_replaced_def by (simp only: if_True)
qed

lemma first_replaced_absent:
  assumes "\<not> (\<exists>pre post. s = pre @ old @ post)" and "r = s"
  shows "first_replaced s old new r"
  unfolding first_replaced_def using assms by (simp only: if_False)

lemma occurrence_shift:
  assumes "\<not> startswith (c # cs) old"
  shows "(c # cs = pre @ old @ post) = (\<exists>pre''. pre = c # pre'' \<and> cs = pre'' @ old @ post)"
proof (cases pre)
  case Nil
  have "c # cs \<noteq> old @ post"
    using assms startswith_iff[of "c # cs" old] by blast
  with Nil show ?thesis by simp
next
  case (Cons a list)
  then show ?thesis by auto
qed

lemma replace_first_spec:
  assumes "old \<noteq> []"
  shows "first_replaced s old new (replace_first s old new)"
proof (induction s)
  case Nil
  have "\<not> (\<exists>pre post. ([]::string) = pre @ old @ post)" using assms by simp
  moreover have "replace_first [] old new = []" using assms by simp
  ultimately show ?case by (rule first_replaced_absent)
next
  case (Cons c cs)
  show ?case
  proof (cases "startswith (c # cs) old")
    case True
    then obtain post where p: "c # cs = old @ post"
      using startswith_iff[of "c # cs" old] by blast
    then have d: "drop (length old) (c # cs) = post" by simp
    have "replace_first (c # cs) old new = new @ drop (length old) (c # cs)"
      using True by simp
    then have r: "replace_first (c # cs) old new = [] @ new @ post"
      by (simp only: d append_Nil)
    have o: "c # cs = [] @ old @ post" using p by simp
    have m: "\<forall>pre' post'. c # cs = pre' @ old @ post' \<longrightarrow> length ([]::string) \<le> length pre'"
      by simp
    show ?thesis by (rule first_replaced_found[OF o m r])
  next
    case False
    note shift = occurrence_shift[OF False]
    have r: "replace_first (c # cs) old new = c # replace_first cs old new"
      using False by simp
    show ?thesis
    proof (cases "\<exists>pre post. cs = pre @ old @ post")
      case True
      with Cons.IH have "\<exists>pre post. cs = pre @ old @ post
             \<and> (\<forall>pre' post'. cs = pre' @ old @ post' \<longrightarrow> length pre \<le> length pre')
             \<and> replace_first cs old new = pre @ new @ post"
        unfolding first_replaced_def by (simp only: if_True)
      then obtain pre post where
        1: "cs = pre @ old @ post"
        and 2: "\<forall>pre' post'. cs = pre' @ old @ post' \<longrightarrow> length pre \<le> length pre'"
        and 3: "replace_first cs old new = pre @ new @ post"
        by blast
      have a: "c # cs = (c # pre) @ old @ post" using 1 by simp
      have b: "\<forall>pre' post'. c # cs = pre' @ old @ post' \<longrightarrow> length (c # pre) \<le> length pre'"
      proof (intro allI impI)
        fix pre' post'
        assume "c # cs = pre' @ old @ post'"
        then obtain pre'' where q: "pre' = c # pre''" "cs = pre'' @ old @ post'"
          using shift[of pre' post'] by blast
        from 2 q(2) have "length pre \<le> length pre''" by blast
        with q(1) show "length (c # pre) \<le> length pre'" by simp
      qed
      have e: "replace_first (c # cs) old new = (c # pre) @ new @ post" using r 3 by simp
      show ?thesis by (rule first_replaced_found[OF a b e])
    next
      case False
      have n: "\<not> (\<exists>pre post. c # cs = pre @ old @ post)"
      proof
        assume "\<exists>pre post. c # cs = pre @ old @ post"
        then obtain pre post where "c # cs = pre @ old @ post" by blast
        then obtain pre'' where "cs = pre'' @ old @ post" using shift[of pre post] by blast
        with False show False by blast
      qed
      from False Cons.IH have "replace_first cs old new = cs"
        unfolding first_replaced_def by (simp only: if_False)
      with r have "replace_first (c # cs) old new = c # cs" by simp
      with n show ?thesis by (rule first_replaced_absent)
    qed
  qed
qed

subsection \<open>Missing keys\<close>

lemma reports_Nil: "reports m [] \<longleftrightarrow> (\<exists>r. m = Inr r)"
  by (cases m) (simp_all add: reports_def)

lemma reports_Cons: "reports m (k # ks) \<longleftrightarrow> m = Inl (KeyError k)"
  by (simp add: reports_def)

lemma reports_Inr: "reports (Inr x) []"
  by (simp add: reports_Nil)

lemma reports_bind:
  assumes "reports m ks" and "\<And>x. m = Inr x \<Longrightarrow> reports (f x) ks'"
  shows "reports (andthen m f) (ks @ ks')"
proof (cases ks)
  case Nil
  with assms(1) obtain r where r: "m = Inr r" by (auto simp: reports_Nil)
  from assms(2)[OF r] show ?thesis by (simp add: Nil r andthen_Inr)
next
  case (Cons k ks0)
  with assms(1) have "m = Inl (KeyError k)" by (simp add: reports_Cons)
  then show ?thesis by (simp add: Cons reports_Cons andthen_Inl)
qed

lemma reports_map:
  assumes "reports m ks"
  shows "reports (andthen m (\<lambda>x. Inr (g x))) ks"
proof -
  have "reports (andthen m (\<lambda>x. Inr (g x))) (ks @ [])"
    using assms by (rule reports_bind) (rule reports_Inr)
  then show ?thesis by simp
qed

lemma reports_getitem:
  assumes "\<And>x. v = Some x \<Longrightarrow> reports (f x) ks"
  shows "reports (andthen (getitem key v) f) (absent key v @ ks)"
proof (cases v)
  case None
  then show ?thesis by (simp add: absent_def getitem_None andthen_Inl reports_Cons)
next
  case (Some x)
  from assms[OF Some] show ?thesis by (simp add: Some absent_def getitem_Some andthen_Inr)
qed

lemma entries_Some: "entries (Some xs) = xs"
  by (simp add: entries_def)

lemma get_arguments_reports:
  "reports (get_arguments args) (concat (map argument_missing args))"
proof (induction args)
  case Nil
  show ?case by (simp add: reports_Inr)
next
  case (Cons a args)
  have "reports (get_arguments (a # args))
          (absent ''name'' (ae_name a) @ absent ''type'' (ae_type a)
           @ concat (map argument_missing args))"
    unfolding get_arguments.simps
    by (intro reports_getitem reports_map Cons.IH)
  then show ?case by (simp add: argument_missing_def[of a])
qed

lemma get_signals_reports:
  "reports (get_signals data) (concat (map signal_missing data))"
proof (induction data)
  case Nil
  show ?case by (simp add: reports_Inr)
next
  case (Cons e data)
  have "reports (get_signals (e # data))
          (absent ''signature'' (se_signature e) @ absent ''name'' (se_name e)
           @ absent ''description'' (se_description e) @ absent ''arguments'' (se_arguments e)
           @ concat (map signal_missing data))"
    unfolding get_signals.simps
    by (intro reports_getitem reports_map Cons.IH)
  then show ?case by (simp add: signal_missing_def[of e])
qed

lemma enumeration_from_dict_reports:
  "reports (enumeration_from_dict e)
     (absent ''signature'' (ce_signature e) @ absent ''name'' (ce_name e)
      @ absent ''description'' (ce_description e) @ absent ''value'' (ce_value e))"
proof -
  have "reports (enumeration_from_dict e)
     (absent ''signature'' (ce_signature e) @ absent ''name'' (ce_name e)
      @ absent ''description'' (ce_description e) @ absent ''value'' (ce_value e) @ [])"
    unfolding enumeration_from_dict_def
    by (intro reports_getitem reports_Inr)
  then show ?thesis by simp
qed

lemma get_enums_reports:
  "reports (get_enums data) (concat (map constant_missing data))"
proof (induction data)
  case Nil
  show ?case by (simp add: reports_Inr)
next
  case (Cons e data)
  show ?case
  proof (cases "ce_data_type e")
    case None
    then show ?thesis
      by (simp add: constant_missing_def[of e] absent_def getitem_None andthen_Inl
          reports_Cons)
  next
    case (Some x)
    show ?thesis
    proof (cases "x = ''Dictionary''")
      case True
      have g: "get_enums (e # data) =
                 andthen (enumeration_from_dict e)
                   (\<lambda>enum. andthen (get_enums data) (\<lambda>enums. Inr (enum # enums)))"
        by (simp add: Some True getitem_Some andthen_Inr)
      have c: "concat (map constant_missing (e # data)) =
                 (absent ''signature'' (ce_signature e) @ absent ''name'' (ce_name e)
                  @ absent ''description'' (ce_description e)
                  @ absent ''value'' (ce_value e))
                 @ concat (map constant_missing data)"
        by (simp add: constant_missing_def[of e] Some True absent_def)
      show ?thesis
        unfolding g c
        by (intro reports_bind enumeration_from_dict_reports reports_map Cons.IH)
    next
      case False
      have g: "get_enums (e # data) = get_enums data"
        by (simp add: Some False getitem_Some andthen_Inr)
      have c: "concat (map constant_missing (e # data)) = concat (map constant_missing data)"
        by (simp add: constant_missing_def[of e] Some False absent_def)
      show ?thesis unfolding g c by (rule Cons.IH)
    qed
  qed
qed

subsection \<open>The cases of one pass\<close>

lemma constructor_not_callback: "TYPE_CONSTRUCTOR \<notin> set BUILTIN_VIRTUAL_CALLBACKS"
  by (simp add: TYPE_CONSTRUCTOR_def BUILTIN_VIRTUAL_CALLBACKS_def)

lemma get_function_callback:
  assumes "me_name e = Some n" and "n \<in> set BUILTIN_VIRTUAL_CALLBACKS"
  shows "get_function e st = Inr None"
  unfolding get_function_def by (simp add: assms getitem_Some andthen_Inr)

lemma get_function_constructor:
  assumes "me_name e = Some TYPE_CONSTRUCTOR"
  shows "me_arguments e = None \<Longrightarrow> get_function e st = Inl (KeyError ''arguments'')"
    and "me_arguments e = Some [] \<Longrightarrow> get_function e st = Inr None"
  unfolding get_function_def
  by (simp_all add: assms constructor_not_callback getitem_Some getitem_None andthen_Inr
      andthen_Inl)

lemma get_function_after_constructor:
  assumes "me_name e = Some n" and "n \<notin> set BUILTIN_VIRTUAL_CALLBACKS"
    and "n = TYPE_CONSTRUCTOR \<longrightarrow> (\<exists>a args. me_arguments e = Some (a # args))"
  shows "get_function e st =
     andthen (getitem ''description'' (me_description e)) (\<lambda>d.
     case get_metadata d of (description, tags, _) \<Rightarrow>
     if startswith n ''_'' \<and> \<not> (''virtual'' \<in> set tags \<and> \<not> st) then Inr None
     else
     andthen (getitem ''signature'' (me_signature e)) (\<lambda>signature.
     andthen (getitem ''return_type'' (me_return_type e)) (\<lambda>return_type.
     andthen (getitem ''arguments'' (me_arguments e)) (\<lambda>args.
     andthen (get_arguments args) (\<lambda>arguments.
     Inr (Some \<lparr>fn_signature = replace_first signature ''-> null'' ''-> void'',
                fn_kind = (if st then STATIC
                           else if ''virtual'' \<in> set tags \<and> \<not> st then VIRTUAL else METHOD),
                fn_name = n,
                fn_description = strip_chars description [CHR '' '', newline],
                fn_return_type = replace_first return_type ''null'' ''void'',
                fn_arguments = arguments,
                fn_rpc_mode = (case me_rpc_mode e of Some r \<Rightarrow> r | None \<Rightarrow> 0),
                fn_tags = tags\<rparr>))))))"
proof -
  have c: "andthen (if n = TYPE_CONSTRUCTOR
                    then andthen (getitem ''arguments'' (me_arguments e)) (\<lambda>a. Inr (a = []))
                    else Inr False) k = k False"
    for k :: "bool \<Rightarrow> error + Function option"
  proof (cases "n = TYPE_CONSTRUCTOR")
    case True
    with assms(3) obtain a args where "me_arguments e = Some (a # args)" by blast
    then show ?thesis by (simp add: True getitem_Some andthen_Inr)
  next
    case False
    then show ?thesis by (simp add: andthen_Inr)
  qed
  show ?thesis
    unfolding get_function_def
    by (simp only: assms(1) getitem_Some andthen_Inr assms(2) if_False c Let_def)
qed

lemma startswith_underscore: "startswith n ''_'' \<longleftrightarrow> take 1 n = ''_''"
  by (simp add: startswith_def)

lemma get_function_summary:
  "reports (get_function e st) (method_missing st e)
   \<and> (\<forall>r. get_function e st = Inr r \<longrightarrow> (r = None) = spec_excluded st e)"
proof (cases "me_name e")
  case None
  have "get_function e st = Inl (KeyError ''name'')"
    unfolding get_function_def by (simp add: None getitem_None andthen_Inl)
  then show ?thesis by (simp add: method_missing_def None reports_Cons)
next
  case (Some n)
  show ?thesis
  proof (cases "n \<in> set BUILTIN_VIRTUAL_CALLBACKS")
    case True
    from get_function_callback[OF Some True]
    show ?thesis by (simp add: method_missing_def spec_excluded_def Some True reports_Nil)
  next
    case nb: False
    consider (no_arguments) "n = TYPE_CONSTRUCTOR" "me_arguments e = None"
      | (empty) "n = TYPE_CONSTRUCTOR" "me_arguments e = Some []"
      | (other) "n = TYPE_CONSTRUCTOR \<longrightarrow> (\<exists>a args. me_arguments e = Some (a # args))"
    proof (cases "me_arguments e")
      case None
      then show ?thesis using that(1,3) by blast
    next
      case (Some args)
      then show ?thesis using that(2,3) by (cases args) auto
    qed
    then show ?thesis
    proof cases
      case no_arguments
      from Some no_arguments(1) have "me_name e = Some TYPE_CONSTRUCTOR" by simp
      from get_function_constructor(1)[OF this no_arguments(2)]
      show ?thesis
        using nb by (simp add: method_missing_def Some no_arguments reports_Cons)
    next
      case empty
      from Some empty(1) have "me_name e = Some TYPE_CONSTRUCTOR" by simp
      from get_function_constructor(2)[OF this empty(2)]
      show ?thesis
        using nb
        by (simp add: method_missing_def spec_excluded_def Some empty reports_Nil
            TYPE_CONSTRUCTOR_def)
    next
      case other
      note u = get_function_after_constructor[OF Some nb other, of st]
      from other have ne: "\<not> (n = TYPE_CONSTRUCTOR \<and> me_arguments e = Some [])"
        by auto
      have mm0: "method_missing st e =
        (case me_description e of
           None \<Rightarrow> [''description'']
         | Some d \<Rightarrow>
             if startswith n ''_''
                \<and> \<not> (''virtual'' \<in> set (fst (snd (get_metadata d))) \<and> \<not> st)
             then []
             else absent ''signature'' (me_signature e)
                  @ absent ''return_type'' (me_return_type e)
                  @ absent ''arguments'' (me_arguments e)
                  @ concat (map argument_missing (entries (me_arguments e))))"
        using nb other by (cases "n = TYPE_CONSTRUCTOR") (auto simp: method_missing_def Some)
      show ?thesis
      proof (cases "me_description e")
        case None
        have "get_function e st = Inl (KeyError ''description'')"
          by (simp add: u None getitem_None andthen_Inl)
        then show ?thesis
          by (simp add: mm0 None reports_Cons)
      next
        case d: (Some d)
        obtain desc tags cat where m: "get_metadata d = (desc, tags, cat)"
          by (cases "get_metadata d") auto
        have t: "entry_tags e = tags" by (simp add: entry_tags_def d m)
        show ?thesis
        proof (cases "startswith n ''_'' \<and> \<not> (''virtual'' \<in> set tags \<and> \<not> st)")
          case True
          have "get_function e st = Inr None"
            by (simp only: u d m getitem_Some andthen_Inr prod.case True if_True simp_thms)
          moreover have "method_missing st e = []"
            by (simp only: mm0 d m option.case fst_conv snd_conv True if_True simp_thms)
          moreover have "spec_excluded st e"
            using True
            by (simp add: spec_excluded_def spec_virtual_def Some t startswith_underscore)
          ultimately show ?thesis by (simp add: reports_Nil)
        next
          case np: False
          let ?k = "\<lambda>signature return_type arguments.
            \<lparr>fn_signature = replace_first signature ''-> null'' ''-> void'',
             fn_kind = (if st then STATIC
                        else if ''virtual'' \<in> set tags \<and> \<not> st then VIRTUAL else METHOD),
             fn_name = n,
             fn_description = strip_chars desc [CHR '' '', newline],
             fn_return_type = replace_first return_type ''null'' ''void'',
             fn_arguments = arguments,
             fn_rpc_mode = (case me_rpc_mode e of Some r \<Rightarrow> r | None \<Rightarrow> 0),
             fn_tags = tags\<rparr>"
          have g: "get_function e st =
             andthen (getitem ''signature'' (me_signature e)) (\<lambda>signature.
             andthen (getitem ''return_type'' (me_return_type e)) (\<lambda>return_type.
             andthen (getitem ''arguments'' (me_arguments e)) (\<lambda>args.
             andthen (get_arguments args) (\<lambda>arguments.
             Inr (Some (?k signature return_type arguments))))))"
            by (simp only: u d m getitem_Some andthen_Inr prod.case np if_False)
          have mm: "method_missing st e =
             absent ''signature'' (me_signature e) @ absent ''return_type'' (me_return_type e)
             @ absent ''arguments'' (me_arguments e)
             @ concat (map argument_missing (entries (me_arguments e)))"
            by (simp only: mm0 d m option.case fst_conv snd_conv np if_False)
          have r: "reports (get_function e st) (method_missing st e)"
            unfolding g mm
          proof (intro reports_getitem)
            fix sg rt args
            assume "me_arguments e = Some args"
            then have "entries (me_arguments e) = args" by (simp add: entries_Some)
            then show "reports (andthen (get_arguments args)
                         (\<lambda>arguments. Inr (Some (?k sg rt arguments))))
                       (concat (map argument_missing (entries (me_arguments e))))"
              by (simp only:) (rule reports_map[OF get_arguments_reports])
          qed
          have x: "\<not> spec_excluded st e"
            using nb ne np
            by (simp add: spec_excluded_def spec_virtual_def Some t startswith_underscore
                TYPE_CONSTRUCTOR_def)
          have "r \<noteq> None" if "get_function e st = Inr r" for r
            using that unfolding g by (auto simp: andthen_eq_Inr)
          with r x show ?thesis by simp
        qed
      qed
    qed
  qed
qed

lemma get_function_reports: "reports (get_function e st) (method_missing st e)"
  using get_function_summary by blast

lemma get_function_excluded:
  "get_function e st = Inr r \<Longrightarrow> (r = None) = spec_excluded st e"
  using get_function_summary by blast

subsection \<open>The loops over the entries\<close>

lemma get_functions_reports:
  "reports (get_functions es st) (concat (map (method_missing st) es))"
proof (induction es)
  case Nil
  show ?case by (simp add: reports_Inr)
next
  case (Cons e es)
  have "reports (get_functions (e # es) st)
          (method_missing st e @ concat (map (method_missing st) es))"
    unfolding get_functions.simps
    by (intro reports_bind get_function_reports reports_map Cons.IH)
  then show ?case by simp
qed

lemma get_functions_ConsE:
  assumes "get_functions (e # es) st = Inr fs"
  obtains r fs' where "get_function e st = Inr r" "get_functions es st = Inr fs'"
    "fs = (case r of None \<Rightarrow> fs' | Some f \<Rightarrow> f # fs')"
  using assms by (auto simp: andthen_eq_Inr)

lemma get_functions_retained:
  "get_functions es st = Inr fs \<Longrightarrow>
   list_all2 (\<lambda>e f. get_function e st = Inr (Some f))
     (filter (\<lambda>e. \<not> spec_excluded st e) es) fs"
proof (induction es arbitrary: fs)
  case Nil
  then show ?case by simp
next
  case (Cons e es)
  from Cons.prems obtain r fs' where
    r: "get_function e st = Inr r" and fs': "get_functions es st = Inr fs'"
    and fs: "fs = (case r of None \<Rightarrow> fs' | Some f \<Rightarrow> f # fs')"
    by (rule get_functions_ConsE)
  note ih = Cons.IH[OF fs']
  show ?case
  proof (cases r)
    case None
    with get_function_excluded[OF r] have "spec_excluded st e" by simp
    with ih fs None show ?thesis by simp
  next
    case (Some f)
    with get_function_excluded[OF r] have "\<not> spec_excluded st e" by simp
    with ih fs Some r show ?thesis by simp
  qed
qed

lemma get_functions_append:
  "get_functions (xs @ ys) st =
     andthen (get_functions xs st) (\<lambda>a. andthen (get_functions ys st) (\<lambda>b. Inr (a @ b)))"
proof (induction xs)
  case Nil
  show ?case by (cases "get_functions ys st") (simp_all add: andthen_def)
next
  case (Cons x xs)
  show ?case
    by (cases "get_function x st"; cases "get_functions xs st"; cases "get_functions ys st")
       (simp_all add: Cons.IH andthen_def split: option.splits)
qed

lemma get_member_reports: "reports (get_member e) (member_missing e)"
proof (cases "mbe_name e")
  case None
  have "get_member e = Inl (KeyError ''name'')"
    unfolding get_member_def by (simp add: None getitem_None andthen_Inl)
  then show ?thesis by (simp add: member_missing_def None reports_Cons)
next
  case (Some n)
  show ?thesis
  proof (cases "startswith n ''_''")
    case True
    have "get_member e = Inr None"
      unfolding get_member_def by (simp add: Some True getitem_Some andthen_Inr)
    then show ?thesis by (simp add: member_missing_def Some True reports_Nil)
  next
    case False
    have g: "get_member e =
      andthen (getitem ''description'' (mbe_description e)) (\<lambda>d.
      andthen (getitem ''signature'' (mbe_signature e)) (\<lambda>signature.
      andthen (getitem ''data_type'' (mbe_data_type e)) (\<lambda>data_type.
      andthen (getitem ''default_value'' (mbe_default_value e)) (\<lambda>default_value.
      andthen (getitem ''export'' (mbe_export e)) (\<lambda>export.
      andthen (getitem ''setter'' (mbe_setter e)) (\<lambda>setter.
      andthen (getitem ''getter'' (mbe_getter e)) (\<lambda>getter.
      Inr (Some \<lparr>mem_signature = signature,
                 mem_name = n,
                 mem_description = strip_chars (fst (get_metadata d)) [CHR '' '', newline],
                 mem_type = data_type,
                 mem_default_value = default_value,
                 mem_is_exported = export,
                 mem_setter = setter,
                 mem_getter = getter,
                 mem_tags = fst (snd (get_metadata d))\<rparr>))))))))"
      unfolding get_member_def
      by (simp add: Some False getitem_Some andthen_Inr split_beta)
    have "reports (get_member e)
           (absent ''description'' (mbe_description e)
            @ absent ''signature'' (mbe_signature e)
            @ absent ''data_type'' (mbe_data_type e)
            @ absent ''default_value'' (mbe_default_value e)
            @ absent ''export'' (mbe_export e)
            @ absent ''setter'' (mbe_setter e)
            @ absent ''getter'' (mbe_getter e) @ [])"
      unfolding g by (intro reports_getitem reports_Inr)
    then show ?thesis by (simp add: member_missing_def Some False)
  qed
qed

lemma get_members_reports:
  "reports (get_members es) (concat (map member_missing es))"
proof (induction es)
  case Nil
  show ?case by (simp add: reports_Inr)
next
  case (Cons e es)
  have "reports (get_members (e # es)) (member_missing e @ concat (map member_missing es))"
    unfolding get_members.simps
    by (intro reports_bind get_member_reports reports_map Cons.IH)
  then show ?case by simp
qed

subsection \<open>The class record\<close>

lemma reports_entries:
  assumes "\<And>xs. reports (g xs) (concat (map missing xs))"
    and "\<And>ys. reports (k ys) rest"
  shows "reports (andthen (getitem key v) (\<lambda>xs. andthen (g xs) k))
           (absent key v @ concat (map missing (entries v)) @ rest)"
proof (cases v)
  case None
  then show ?thesis by (simp add: absent_def getitem_None andthen_Inl reports_Cons)
next
  case (Some xs)
  have "reports (andthen (g xs) k) (concat (map missing xs) @ rest)"
    by (rule reports_bind) (rule assms)+
  then show ?thesis by (simp add: Some absent_def entries_Some getitem_Some andthen_Inr)
qed

lemma from_dict_reports: "reports (from_dict d) (class_missing d)"
proof (cases "d_description d")
  case None
  have "from_dict d = Inl (KeyError ''description'')"
    unfolding from_dict_def by (simp add: None getitem_None andthen_Inl)
  then show ?thesis by (simp add: class_missing_def None absent_def reports_Cons)
next
  case (Some dd)
  obtain desc tags cat where m: "get_metadata dd = (desc, tags, cat)"
    by (cases "get_metadata dd") auto
  have g: "from_dict d =
     andthen (getitem ''name'' (d_name d)) (\<lambda>name.
     andthen (getitem ''extends_class'' (d_extends_class d)) (\<lambda>extends_class.
     andthen (getitem ''path'' (d_path d)) (\<lambda>path.
     andthen (getitem ''methods'' (d_methods d)) (\<lambda>methods.
     andthen (get_functions methods False) (\<lambda>functions.
     andthen (getitem ''static_functions'' (d_static_functions d)) (\<lambda>static_functions.
     andthen (get_functions static_functions True) (\<lambda>statics.
     andthen (getitem ''members'' (d_members d)) (\<lambda>members0.
     andthen (get_members members0) (\<lambda>members.
     andthen (getitem ''signals'' (d_signals d)) (\<lambda>signals0.
     andthen (get_signals signals0) (\<lambda>signals.
     andthen (getitem ''constants'' (d_constants d)) (\<lambda>constants.
     andthen (get_enums constants) (\<lambda>enums.
     Inr \<lparr>cls_name = name,
          cls_extends = extends_class,
          cls_description = strip_chars desc [CHR '' '', newline],
          cls_path = path,
          cls_functions = functions @ statics,
          cls_members = members,
          cls_signals = signals,
          cls_enums = enums,
          cls_tags = tags,
          cls_category = cat\<rparr>)))))))))))))"
    unfolding from_dict_def
    by (simp only: Some getitem_Some andthen_Inr m prod.case)
  have "reports (from_dict d)
     (absent ''name'' (d_name d)
     @ absent ''extends_class'' (d_extends_class d)
     @ absent ''path'' (d_path d)
     @ absent ''methods'' (d_methods d)
     @ concat (map (method_missing False) (entries (d_methods d)))
     @ absent ''static_functions'' (d_static_functions d)
     @ concat (map (method_missing True) (entries (d_static_functions d)))
     @ absent ''members'' (d_members d)
     @ concat (map member_missing (entries (d_members d)))
     @ absent ''signals'' (d_signals d)
     @ concat (map signal_missing (entries (d_signals d)))
     @ absent ''constants'' (d_constants d)
     @ concat (map constant_missing (entries (d_constants d))) @ [])"
    unfolding g
    apply (rule reports_getitem)
    apply (rule reports_getitem)
    apply (rule reports_getitem)
    apply (rule reports_entries, rule get_functions_reports)
    apply (rule reports_entries, rule get_functions_reports)
    apply (rule reports_entries, rule get_members_reports)
    apply (rule reports_entries, rule get_signals_reports)
    apply (rule reports_entries, rule get_enums_reports)
    apply (rule reports_Inr)
    done
  then show ?thesis by (simp add: class_missing_def Some absent_def)
qed

lemma from_dict_functions:
  assumes "from_dict d = Inr c"
  obtains ms ss fs1 fs2 where "d_methods d = Some ms" "d_static_functions d = Some ss"
    "get_functions ms False = Inr fs1" "get_functions ss True = Inr fs2"
    "cls_functions c = fs1 @ fs2"
proof -
  from assms obtain dd where dd: "d_description d = Some dd"
    unfolding from_dict_def
    by (cases "d_description d") (simp_all add: getitem_None andthen_Inl)
  obtain desc tags cat where m: "get_metadata dd = (desc, tags, cat)"
    by (cases "get_metadata dd") auto
  from assms have "\<exists>ms ss fs1 fs2. d_methods d = Some ms \<and> d_static_functions d = Some ss
      \<and> get_functions ms False = Inr fs1 \<and> get_functions ss True = Inr fs2
      \<and> cls_functions c = fs1 @ fs2"
    unfolding from_dict_def
    by (simp only: dd getitem_Some andthen_Inr m prod.case)
       (auto simp: andthen_eq_Inr getitem_eq_Inr)
  with that show thesis by blast
qed

subsection \<open>The function built from a retained entry\<close>

lemma get_function_Some_name:
  "get_function e st = Inr (Some f) \<Longrightarrow> me_name e = Some (fn_name f)"
  by (elim get_function_SomeE) simp

lemma get_function_Some_kind:
  "get_function e st = Inr (Some f) \<Longrightarrow>
   fn_kind f = (if st then STATIC
                else if ''virtual'' \<in> set (entry_tags e) then VIRTUAL else METHOD)"
  by (elim get_function_SomeE) (simp add: entry_tags_def)

lemma get_function_Some_rewritten:
  assumes "get_function e st = Inr (Some f)"
  shows "null_rewritten e f"
proof -
  from assms obtain sg rt where "me_signature e = Some sg" "me_return_type e = Some rt"
    "fn_return_type f = replace_first rt ''null'' ''void''"
    "fn_signature f = replace_first sg ''-> null'' ''-> void''"
    by (elim get_function_SomeE) simp
  then show ?thesis by (simp add: null_rewritten_def replace_first_spec)
qed

lemma get_function_Some_rpc_mode:
  "get_function e st = Inr (Some f) \<Longrightarrow> fn_rpc_mode f = rpc_mode_of e"
  by (elim get_function_SomeE) (simp add: rpc_mode_of_def split: option.splits)

lemma from_dict_retained:
  assumes "from_dict d = Inr c"
    and "\<And>st e f. get_function e st = Inr (Some f) \<Longrightarrow> P st e f"
  shows "\<exists>ms ss fs1 fs2.
     d_methods d = Some ms \<and> d_static_functions d = Some ss \<and> cls_functions c = fs1 @ fs2
     \<and> list_all2 (P False) (filter (\<lambda>e. \<not> spec_excluded False e) ms) fs1
     \<and> list_all2 (P True) (filter (\<lambda>e. \<not> spec_excluded True e) ss) fs2"
proof -
  from assms(1) obtain ms ss fs1 fs2 where
    ms: "d_methods d = Some ms" and ss: "d_static_functions d = Some ss"
    and fs1: "get_functions ms False = Inr fs1" and fs2: "get_functions ss True = Inr fs2"
    and c: "cls_functions c = fs1 @ fs2"
    by (rule from_dict_functions)
  have a: "list_all2 (P False) (filter (\<lambda>e. \<not> spec_excluded False e) ms) fs1"
    by (rule list_all2_mono[OF get_functions_retained[OF fs1]]) (rule assms(2))
  have b: "list_all2 (P True) (filter (\<lambda>e. \<not> spec_excluded True e) ss) fs2"
    by (rule list_all2_mono[OF get_functions_retained[OF fs2]]) (rule assms(2))
  show ?thesis
    by (rule exI[of _ ms], rule exI[of _ ss], rule exI[of _ fs1], rule exI[of _ fs2])
       (intro conjI ms ss c a b)
qed

subsection \<open>Which entries are excluded\<close>

text \<open>
  Claim C2. When the class record builds, the function list of the built class is made
  of the functions of the \<open>methods\<close> list followed by those of the \<open>static_functions\<close>
  list, and in each list an entry is excluded if and only if its name is in the built-in
  callback list, or it is \<open>_init\<close> with zero declared arguments, or its name starts
  with an underscore and it is not virtual, where an entry of the static-functions list
  is never virtual: every other entry yields exactly one function, the one built from it,
  which bears its name, in input order.
\<close>

theorem functions_filter:
  assumes "from_dict d = Inr c"
  shows "\<exists>ms ss fs1 fs2.
     d_methods d = Some ms \<and> d_static_functions d = Some ss \<and> cls_functions c = fs1 @ fs2
     \<and> list_all2 (\<lambda>e f. get_function e False = Inr (Some f) \<and> me_name e = Some (fn_name f))
          (filter (\<lambda>e. \<not> spec_excluded False e) ms) fs1
     \<and> list_all2 (\<lambda>e f. get_function e True = Inr (Some f) \<and> me_name e = Some (fn_name f))
          (filter (\<lambda>e. \<not> spec_excluded True e) ss) fs2"
  by (rule from_dict_retained
        [where P = "\<lambda>st e f. get_function e st = Inr (Some f) \<and> me_name e = Some (fn_name f)",
         OF assms])
     (simp add: get_function_Some_name)

theorem functions_filter_witness:
  "\<exists>c. from_dict sample_record = Inr c
     \<and> map fn_name (cls_functions c) = [''_init'', ''get_or_null'', ''make'']
     \<and> map (spec_excluded False) (entries (d_methods sample_record))
         = [True, True, False, True, False]
     \<and> map (spec_excluded True) (entries (d_static_functions sample_record)) = [False, True]
     \<and> (\<exists>ms ss fs1 fs2.
          d_methods sample_record = Some ms \<and> d_static_functions sample_record = Some ss
          \<and> cls_functions c = fs1 @ fs2
          \<and> list_all2
               (\<lambda>e f. get_function e False = Inr (Some f) \<and> me_name e = Some (fn_name f))
               (filter (\<lambda>e. \<not> spec_excluded False e) ms) fs1
          \<and> list_all2
               (\<lambda>e f. get_function e True = Inr (Some f) \<and> me_name e = Some (fn_name f))
               (filter (\<lambda>e. \<not> spec_excluded True e) ss) fs2)"
proof -
  let ?c = "projr (from_dict sample_record)"
  have a: "from_dict sample_record = Inr ?c"
    by code_simp
  have n: "map fn_name (cls_functions ?c) = [''_init'', ''get_or_null'', ''make'']"
    by code_simp
  have x: "map (spec_excluded False) (entries (d_methods sample_record))
             = [True, True, False, True, False]"
    by code_simp
  have y: "map (spec_excluded True) (entries (d_static_functions sample_record))
             = [False, True]"
    by code_simp
  note r = functions_filter[OF a]
  show ?thesis
    by (rule exI[of _ ?c]) (intro conjI a n x y r)
qed

subsection \<open>Classification of the retained entries\<close>

text \<open>
  Claim C3. When the class record builds, the kind of every function of the built class
  follows the priority static, then virtual, then plain method: the function of a
  retained entry of the \<open>static_functions\<close> list is \<open>STATIC\<close>, whether or not the tags
  of the entry contain \<open>virtual\<close>; the function of a retained entry of the \<open>methods\<close>
  list is \<open>VIRTUAL\<close> when the tags extracted from the description of the entry contain
  \<open>virtual\<close>, and \<open>METHOD\<close> otherwise.
\<close>

theorem kind_priority:
  assumes "from_dict d = Inr c"
  shows "\<exists>ms ss fs1 fs2.
     d_methods d = Some ms \<and> d_static_functions d = Some ss \<and> cls_functions c = fs1 @ fs2
     \<and> list_all2 (\<lambda>e f. fn_kind f = (if ''virtual'' \<in> set (entry_tags e) then VIRTUAL
                                     else METHOD))
          (filter (\<lambda>e. \<not> spec_excluded False e) ms) fs1
     \<and> list_all2 (\<lambda>e f. fn_kind f = STATIC)
          (filter (\<lambda>e. \<not> spec_excluded True e) ss) fs2"
proof -
  have "\<exists>ms ss fs1 fs2.
     d_methods d = Some ms \<and> d_static_functions d = Some ss \<and> cls_functions c = fs1 @ fs2
     \<and> list_all2 (\<lambda>e f. fn_kind f = (if False then STATIC
                                     else if ''virtual'' \<in> set (entry_tags e) then VIRTUAL
                                     else METHOD))
          (filter (\<lambda>e. \<not> spec_excluded False e) ms) fs1
     \<and> list_all2 (\<lambda>e f. fn_kind f = (if True then STATIC
                                     else if ''virtual'' \<in> set (entry_tags e) then VIRTUAL
                                     else METHOD))
          (filter (\<lambda>e. \<not> spec_excluded True e) ss) fs2"
    by (rule from_dict_retained
          [where P = "\<lambda>st e f. fn_kind f = (if st then STATIC
                                       else if ''virtual'' \<in> set (entry_tags e) then VIRTUAL
                                       else METHOD)",
           OF assms])
       (rule get_function_Some_kind)
  then show ?thesis by (simp only: if_False if_True)
qed

theorem kind_priority_witness:
  "\<exists>c. from_dict sample_record = Inr c
     \<and> map fn_name (cls_functions c) = [''_init'', ''get_or_null'', ''make'']
     \<and> map fn_kind (cls_functions c) = [VIRTUAL, METHOD, STATIC]
     \<and> map entry_tags (filter (\<lambda>e. \<not> spec_excluded False e) (entries (d_methods sample_record)))
         = [[''virtual''], []]
     \<and> map entry_tags
           (filter (\<lambda>e. \<not> spec_excluded True e) (entries (d_static_functions sample_record)))
         = [[''virtual'']]
     \<and> (\<exists>ms ss fs1 fs2.
          d_methods sample_record = Some ms \<and> d_static_functions sample_record = Some ss
          \<and> cls_functions c = fs1 @ fs2
          \<and> list_all2 (\<lambda>e f. fn_kind f = (if ''virtual'' \<in> set (entry_tags e) then VIRTUAL
                                          else METHOD))
               (filter (\<lambda>e. \<not> spec_excluded False e) ms) fs1
          \<and> list_all2 (\<lambda>e f. fn_kind f = STATIC)
               (filter (\<lambda>e. \<not> spec_excluded True e) ss) fs2)"
proof -
  let ?c = "projr (from_dict sample_record)"
  have a: "from_dict sample_record = Inr ?c"
    by code_simp
  have n: "map fn_name (cls_functions ?c) = [''_init'', ''get_or_null'', ''make'']"
    by code_simp
  have k: "map fn_kind (cls_functions ?c) = [VIRTUAL, METHOD, STATIC]"
    by code_simp
  have x: "map entry_tags
             (filter (\<lambda>e. \<not> spec_excluded False e) (entries (d_methods sample_record)))
           = [[''virtual''], []]"
    by code_simp
  have y: "map entry_tags
             (filter (\<lambda>e. \<not> spec_excluded True e)
                (entries (d_static_functions sample_record)))
           = [[''virtual'']]"
    by code_simp
  note r = kind_priority[OF a]
  show ?thesis
    by (rule exI[of _ ?c]) (intro conjI a n k x y r)
qed

subsection \<open>The rewriting of \<open>null\<close> to \<open>void\<close>\<close>

text \<open>
  Claim C5. When the class record builds, for every retained entry of the \<open>methods\<close>
  and of the \<open>static_functions\<close> list, the return type of the function built from it is
  the return type of the entry with the first occurrence of \<open>null\<close> replaced by
  \<open>void\<close>, and its signature is the signature of the entry with the first occurrence of
  \<open>-> null\<close> replaced by \<open>-> void\<close>; a field without the substring is stored
  unchanged, and at most one replacement happens in each field.
\<close>

theorem null_rewritten_to_void:
  assumes "from_dict d = Inr c"
  shows "\<exists>ms ss fs1 fs2.
     d_methods d = Some ms \<and> d_static_functions d = Some ss \<and> cls_functions c = fs1 @ fs2
     \<and> list_all2 null_rewritten (filter (\<lambda>e. \<not> spec_excluded False e) ms) fs1
     \<and> list_all2 null_rewritten (filter (\<lambda>e. \<not> spec_excluded True e) ss) fs2"
  by (rule from_dict_retained[where P = "\<lambda>st. null_rewritten", OF assms])
     (rule get_function_Some_rewritten)

theorem null_rewritten_to_void_witness:
  "\<exists>c. from_dict sample_record = Inr c
     \<and> map me_return_type
           (filter (\<lambda>e. \<not> spec_excluded False e) (entries (d_methods sample_record))
            @ filter (\<lambda>e. \<not> spec_excluded True e)
                (entries (d_static_functions sample_record)))
         = [Some ''null'', Some ''null'', Some ''Foo'']
     \<and> map fn_return_type (cls_functions c) = [''void'', ''void'', ''Foo'']
     \<and> map me_signature
           (filter (\<lambda>e. \<not> spec_excluded False e) (entries (d_methods sample_record))
            @ filter (\<lambda>e. \<not> spec_excluded True e)
                (entries (d_static_functions sample_record)))
         = [Some ''_init(size: int) -> null'', Some ''get_or_null(default = null) -> null'',
            Some ''make() -> Foo'']
     \<and> map fn_signature (cls_functions c)
         = [''_init(size: int) -> void'', ''get_or_null(default = null) -> void'',
            ''make() -> Foo'']
     \<and> (\<exists>ms ss fs1 fs2.
          d_methods sample_record = Some ms \<and> d_static_functions sample_record = Some ss
          \<and> cls_functions c = fs1 @ fs2
          \<and> list_all2 null_rewritten (filter (\<lambda>e. \<not> spec_excluded False e) ms) fs1
          \<and> list_all2 null_rewritten (filter (\<lambda>e. \<not> spec_excluded True e) ss) fs2)"
proof -
  let ?c = "projr (from_dict sample_record)"
  have a: "from_dict sample_record = Inr ?c"
    by code_simp
  have rt: "map me_return_type
           (filter (\<lambda>e. \<not> spec_excluded False e) (entries (d_methods sample_record))
            @ filter (\<lambda>e. \<not> spec_excluded True e)
                (entries (d_static_functions sample_record)))
         = [Some ''null'', Some ''null'', Some ''Foo'']"
    by code_simp
  have frt: "map fn_return_type (cls_functions ?c) = [''void'', ''void'', ''Foo'']"
    by code_simp
  have sg: "map me_signature
           (filter (\<lambda>e. \<not> spec_excluded False e) (entries (d_methods sample_record))
            @ filter (\<lambda>e. \<not> spec_excluded True e)
                (entries (d_static_functions sample_record)))
         = [Some ''_init(size: int) -> null'', Some ''get_or_null(default = null) -> null'',
            Some ''make() -> Foo'']"
    by code_simp
  have fsg: "map fn_signature (cls_functions ?c)
         = [''_init(size: int) -> void'', ''get_or_null(default = null) -> void'',
            ''make() -> Foo'']"
    by code_simp
  note r = null_rewritten_to_void[OF a]
  show ?thesis
    by (rule exI[of _ ?c]) (intro conjI a rt frt sg fsg r)
qed

subsection \<open>Removing one key of a retained entry\<close>

lemma get_function_key_removed:
  assumes "get_function e is_static = Inr (Some f)"
  shows "get_function (e\<lparr>me_rpc_mode := None\<rparr>) is_static = Inr (Some (f\<lparr>fn_rpc_mode := 0\<rparr>))"
    and "get_function (e\<lparr>me_name := None\<rparr>) is_static = Inl (KeyError ''name'')"
    and "get_function (e\<lparr>me_description := None\<rparr>) is_static = Inl (KeyError ''description'')"
    and "get_function (e\<lparr>me_signature := None\<rparr>) is_static = Inl (KeyError ''signature'')"
    and "get_function (e\<lparr>me_return_type := None\<rparr>) is_static = Inl (KeyError ''return_type'')"
    and "get_function (e\<lparr>me_arguments := None\<rparr>) is_static = Inl (KeyError ''arguments'')"
proof -
  from assms obtain n sg d rt args as desc tags cat where
    e: "me_name e = Some n" "me_signature e = Some sg" "me_description e = Some d"
       "me_return_type e = Some rt" "me_arguments e = Some args"
    and m: "get_metadata d = (desc, tags, cat)" and as: "get_arguments args = Inr as"
    and k: "n \<notin> set BUILTIN_VIRTUAL_CALLBACKS" "\<not> (n = TYPE_CONSTRUCTOR \<and> args = [])"
       "\<not> (startswith n ''_'' \<and> \<not> (''virtual'' \<in> set tags \<and> \<not> is_static))"
    and f: "f = \<lparr>fn_signature = replace_first sg ''-> null'' ''-> void'',
          fn_kind = (if is_static then STATIC
                     else if ''virtual'' \<in> set tags \<and> \<not> is_static then VIRTUAL else METHOD),
          fn_name = n,
          fn_description = strip_chars desc [CHR '' '', newline],
          fn_return_type = replace_first rt ''null'' ''void'',
          fn_arguments = as,
          fn_rpc_mode = (case me_rpc_mode e of Some r \<Rightarrow> r | None \<Rightarrow> 0),
          fn_tags = tags\<rparr>"
    by (rule get_function_SomeE)
  have c: "andthen (if n = TYPE_CONSTRUCTOR then Inr (args = []) else Inr False) h = h False"
    for h :: "bool \<Rightarrow> error + Function option"
    using k(2) by (cases "n = TYPE_CONSTRUCTOR") (simp_all add: andthen_Inr)
  have p: "(startswith n ''_'' \<and> \<not> (''virtual'' \<in> set tags \<and> \<not> is_static)) = False"
    using k(3) by simp
  have e': "me_name (e\<lparr>me_rpc_mode := None\<rparr>) = Some n"
    "me_signature (e\<lparr>me_rpc_mode := None\<rparr>) = Some sg"
    "me_description (e\<lparr>me_rpc_mode := None\<rparr>) = Some d"
    "me_return_type (e\<lparr>me_rpc_mode := None\<rparr>) = Some rt"
    "me_arguments (e\<lparr>me_rpc_mode := None\<rparr>) = Some args"
    by (simp_all add: e)
  have "get_function (e\<lparr>me_rpc_mode := None\<rparr>) is_static =
        andthen (get_arguments args) (\<lambda>arguments.
        Inr (Some \<lparr>fn_signature = replace_first sg ''-> null'' ''-> void'',
                fn_kind = (if is_static then STATIC
                           else if ''virtual'' \<in> set tags \<and> \<not> is_static then VIRTUAL
                           else METHOD),
                fn_name = n,
                fn_description = strip_chars desc [CHR '' '', newline],
                fn_return_type = replace_first rt ''null'' ''void'',
                fn_arguments = arguments,
                fn_rpc_mode = (case me_rpc_mode (e\<lparr>me_rpc_mode := None\<rparr>) of
                                 Some r \<Rightarrow> r | None \<Rightarrow> 0),
                fn_tags = tags\<rparr>))"
    by (simp only: get_function_fields[OF e' m, of is_static] k p if_False)
  then show "get_function (e\<lparr>me_rpc_mode := None\<rparr>) is_static = Inr (Some (f\<lparr>fn_rpc_mode := 0\<rparr>))"
    by (simp add: as f andthen_Inr)
  show "get_function (e\<lparr>me_name := None\<rparr>) is_static = Inl (KeyError ''name'')"
    by (simp add: get_function_def andthen_Inl getitem_None)
  show "get_function (e\<lparr>me_description := None\<rparr>) is_static = Inl (KeyError ''description'')"
    unfolding get_function_def using k(1,2)
    by (cases "n = TYPE_CONSTRUCTOR")
       (simp_all add: e andthen_Inr andthen_Inl getitem_Some getitem_None)
  show "get_function (e\<lparr>me_signature := None\<rparr>) is_static = Inl (KeyError ''signature'')"
    unfolding get_function_def using k
    by (cases "n = TYPE_CONSTRUCTOR")
       (simp_all add: e m andthen_Inr andthen_Inl getitem_Some getitem_None Let_def)
  show "get_function (e\<lparr>me_return_type := None\<rparr>) is_static = Inl (KeyError ''return_type'')"
    unfolding get_function_def using k
    by (cases "n = TYPE_CONSTRUCTOR")
       (simp_all add: e m andthen_Inr andthen_Inl getitem_Some getitem_None Let_def)
  show "get_function (e\<lparr>me_arguments := None\<rparr>) is_static = Inl (KeyError ''arguments'')"
  proof (cases "n = TYPE_CONSTRUCTOR")
    case True
    then show ?thesis unfolding get_function_def using k(1)
      by (simp add: e andthen_Inr andthen_Inl getitem_Some getitem_None)
  next
    case False
    then show ?thesis unfolding get_function_def using k
      by (simp add: e m andthen_Inr andthen_Inl getitem_Some getitem_None Let_def)
  qed
qed

lemma get_functions_middle:
  assumes "get_functions xs st = Inr a"
  shows "get_functions (xs @ e # ys) st =
     andthen (get_function e st) (\<lambda>r.
     andthen (get_functions ys st) (\<lambda>b.
     Inr (a @ (case r of None \<Rightarrow> b | Some f \<Rightarrow> f # b))))"
  by (cases "get_function e st"; cases "get_functions ys st")
     (simp_all add: get_functions_append assms andthen_def)

lemma get_functions_middleE:
  assumes "get_functions (xs @ e # ys) st = Inr fs"
  obtains a r b where "get_functions xs st = Inr a" "get_function e st = Inr r"
    "get_functions ys st = Inr b" "fs = a @ (case r of None \<Rightarrow> b | Some f \<Rightarrow> f # b)"
proof -
  from assms obtain a where a: "get_functions xs st = Inr a"
    by (auto simp: get_functions_append andthen_eq_Inr)
  from assms show thesis
    unfolding get_functions_middle[OF a]
    using that[OF a] by (auto simp: andthen_eq_Inr)
qed

lemma complete_method_missing:
  assumes "complete_method e"
  shows "method_missing st e = []"
proof -
  from assms obtain n sg d rt args where
    e: "me_name e = Some n" "me_signature e = Some sg" "me_description e = Some d"
       "me_return_type e = Some rt" "me_arguments e = Some args"
    and a: "list_all complete_argument args"
    by (auto simp: complete_method_def split: option.splits)
  from a have "concat (map argument_missing args) = []"
    by (induction args) (auto simp: argument_missing_def complete_argument_def absent_def)
  then show ?thesis
    by (simp add: method_missing_def e absent_def entries_Some)
qed

subsection \<open>The optional key \<open>rpc_mode\<close>\<close>

text \<open>
  The claim as stated fails: \<open>rpc_mode\<close> is not the only key of a method entry whose
  absence is tolerated. The only method entry of this record has its name alone, and
  the record builds.
\<close>

theorem absent_keys_tolerated:
  "d_methods callback_record =
     Some [\<lparr>me_name = Some ''_ready'', me_signature = None, me_description = None,
            me_return_type = None, me_arguments = None, me_rpc_mode = None\<rparr>]
   \<and> from_dict callback_record =
       Inr \<lparr>cls_name = ''Foo'', cls_extends = [''Node''], cls_description = ''Does things.'',
            cls_path = ''foo.gd'', cls_functions = [], cls_members = [], cls_signals = [],
            cls_enums = [], cls_tags = [], cls_category = []\<rparr>"
proof
  show "d_methods callback_record =
     Some [\<lparr>me_name = Some ''_ready'', me_signature = None, me_description = None,
            me_return_type = None, me_arguments = None, me_rpc_mode = None\<rparr>]"
    by (simp add: callback_record_def)
  show "from_dict callback_record =
       Inr \<lparr>cls_name = ''Foo'', cls_extends = [''Node''], cls_description = ''Does things.'',
            cls_path = ''foo.gd'', cls_functions = [], cls_members = [], cls_signals = [],
            cls_enums = [], cls_tags = [], cls_category = []\<rparr>"
    by code_simp
qed

text \<open>
  Claim C10, amended. Method entries that have every key but possibly \<open>rpc_mode\<close> are
  built without failure, and in every build the \<open>rpc_mode\<close> of the function of a retained
  entry is the value of the entry's key \<open>rpc_mode\<close>, and 0 when the entry has no such
  key. For a retained entry \<open>rpc_mode\<close> is the only key whose absence is tolerated:
  removing \<open>rpc_mode\<close> from it only resets the \<open>rpc_mode\<close> of its function to 0, while
  removing any one of \<open>name\<close>, \<open>description\<close>, \<open>signature\<close>, \<open>return_type\<close> or
  \<open>arguments\<close> makes the build fail with a \<open>KeyError\<close> naming that key.
\<close>

theorem rpc_mode_optional:
  "(list_all complete_method es \<longrightarrow>
      (\<exists>fs. get_functions es st = Inr fs
         \<and> list_all2 (\<lambda>e f. fn_rpc_mode f = rpc_mode_of e)
              (filter (\<lambda>e. \<not> spec_excluded st e) es) fs))
   \<and> (from_dict d = Inr c \<longrightarrow>
      (\<exists>ms ss fs1 fs2.
         d_methods d = Some ms \<and> d_static_functions d = Some ss \<and> cls_functions c = fs1 @ fs2
         \<and> list_all2 (\<lambda>e f. fn_rpc_mode f = rpc_mode_of e)
              (filter (\<lambda>e. \<not> spec_excluded False e) ms) fs1
         \<and> list_all2 (\<lambda>e f. fn_rpc_mode f = rpc_mode_of e)
              (filter (\<lambda>e. \<not> spec_excluded True e) ss) fs2))
   \<and> (get_functions (xs @ x # ys) st = Inr fs \<and> \<not> spec_excluded st x \<longrightarrow>
      (\<exists>a f b. fs = a @ f # b
         \<and> get_functions (xs @ x\<lparr>me_rpc_mode := None\<rparr> # ys) st
             = Inr (a @ f\<lparr>fn_rpc_mode := 0\<rparr> # b))
      \<and> get_functions (xs @ x\<lparr>me_name := None\<rparr> # ys) st = Inl (KeyError ''name'')
      \<and> get_functions (xs @ x\<lparr>me_description := None\<rparr> # ys) st
          = Inl (KeyError ''description'')
      \<and> get_functions (xs @ x\<lparr>me_signature := None\<rparr> # ys) st
          = Inl (KeyError ''signature'')
      \<and> get_functions (xs @ x\<lparr>me_return_type := None\<rparr> # ys) st
          = Inl (KeyError ''return_type'')
      \<and> get_functions (xs @ x\<lparr>me_arguments := None\<rparr> # ys) st
          = Inl (KeyError ''arguments''))"
proof (intro conjI impI)
  assume "list_all complete_method es"
  then have "concat (map (method_missing st) es) = []"
    by (induction es) (simp_all add: complete_method_missing)
  with get_functions_reports[of es st] obtain fs where fs: "get_functions es st = Inr fs"
    by (auto simp: reports_Nil)
  have "list_all2 (\<lambda>e f. fn_rpc_mode f = rpc_mode_of e)
          (filter (\<lambda>e. \<not> spec_excluded st e) es) fs"
    by (rule list_all2_mono[OF get_functions_retained[OF fs]])
       (rule get_function_Some_rpc_mode)
  with fs show "\<exists>fs. get_functions es st = Inr fs
         \<and> list_all2 (\<lambda>e f. fn_rpc_mode f = rpc_mode_of e)
              (filter (\<lambda>e. \<not> spec_excluded st e) es) fs"
    by (intro exI conjI)
next
  assume "from_dict d = Inr c"
  then show "\<exists>ms ss fs1 fs2.
         d_methods d = Some ms \<and> d_static_functions d = Some ss \<and> cls_functions c = fs1 @ fs2
         \<and> list_all2 (\<lambda>e f. fn_rpc_mode f = rpc_mode_of e)
              (filter (\<lambda>e. \<not> spec_excluded False e) ms) fs1
         \<and> list_all2 (\<lambda>e f. fn_rpc_mode f = rpc_mode_of e)
              (filter (\<lambda>e. \<not> spec_excluded True e) ss) fs2"
    by (rule from_dict_retained[where P = "\<lambda>st e f. fn_rpc_mode f = rpc_mode_of e"])
       (rule get_function_Some_rpc_mode)
next
  assume h: "get_functions (xs @ x # ys) st = Inr fs \<and> \<not> spec_excluded st x"
  then obtain a r b where a: "get_functions xs st = Inr a" and r: "get_function x st = Inr r"
    and b: "get_functions ys st = Inr b"
    and fs: "fs = a @ (case r of None \<Rightarrow> b | Some f \<Rightarrow> f # b)"
    by (elim conjE get_functions_middleE)
  from h get_function_excluded[OF r] obtain f where f: "r = Some f" by auto
  note g = r[unfolded f]
  note m = get_functions_middle[OF a]
  show "\<exists>a f b. fs = a @ f # b
         \<and> get_functions (xs @ x\<lparr>me_rpc_mode := None\<rparr> # ys) st
             = Inr (a @ f\<lparr>fn_rpc_mode := 0\<rparr> # b)"
  proof (intro exI conjI)
    show "fs = a @ f # b" by (simp add: fs f)
    show "get_functions (xs @ x\<lparr>me_rpc_mode := None\<rparr> # ys) st
             = Inr (a @ f\<lparr>fn_rpc_mode := 0\<rparr> # b)"
      by (simp add: m get_function_key_removed(1)[OF g] b andthen_Inr)
  qed
  show "get_functions (xs @ x\<lparr>me_name := None\<rparr> # ys) st = Inl (KeyError ''name'')"
    by (simp only: m get_function_key_removed(2)[OF g] andthen_Inl)
  show "get_functions (xs @ x\<lparr>me_description := None\<rparr> # ys) st
          = Inl (KeyError ''description'')"
    by (simp only: m get_function_key_removed(3)[OF g] andthen_Inl)
  show "get_functions (xs @ x\<lparr>me_signature := None\<rparr> # ys) st
          = Inl (KeyError ''signature'')"
    by (simp only: m get_function_key_removed(4)[OF g] andthen_Inl)
  show "get_functions (xs @ x\<lparr>me_return_type := None\<rparr> # ys) st
          = Inl (KeyError ''return_type'')"
    by (simp only: m get_function_key_removed(5)[OF g] andthen_Inl)
  show "get_functions (xs @ x\<lparr>me_arguments := None\<rparr> # ys) st
          = Inl (KeyError ''arguments'')"
    by (simp only: m get_function_key_removed(6)[OF g] andthen_Inl)
qed

theorem rpc_mode_optional_witness:
  "list_all complete_method [run_entry, sync_entry]
   \<and> map rpc_mode_of [run_entry, sync_entry] = [0, 2]
   \<and> (\<exists>fs. get_functions [run_entry, sync_entry] False = Inr fs
         \<and> map fn_rpc_mode fs = [0, 2]
         \<and> list_all2 (\<lambda>e f. fn_rpc_mode f = rpc_mode_of e)
              (filter (\<lambda>e. \<not> spec_excluded False e) [run_entry, sync_entry]) fs)
   \<and> (\<exists>c. from_dict sample_record = Inr c
         \<and> map fn_rpc_mode (cls_functions c) = [0, 2, 0]
         \<and> (\<exists>ms ss fs1 fs2.
              d_methods sample_record = Some ms \<and> d_static_functions sample_record = Some ss
              \<and> cls_functions c = fs1 @ fs2
              \<and> list_all2 (\<lambda>e f. fn_rpc_mode f = rpc_mode_of e)
                   (filter (\<lambda>e. \<not> spec_excluded False e) ms) fs1
              \<and> list_all2 (\<lambda>e f. fn_rpc_mode f = rpc_mode_of e)
                   (filter (\<lambda>e. \<not> spec_excluded True e) ss) fs2))
   \<and> \<not> spec_excluded False sync_entry
   \<and> map fn_rpc_mode (projr (get_functions ([run_entry] @ sync_entry # []) False)) = [0, 2]
   \<and> map fn_rpc_mode
         (projr (get_functions ([run_entry] @ sync_entry\<lparr>me_rpc_mode := None\<rparr> # []) False))
       = [0, 0]
   \<and> (\<exists>a f b. projr (get_functions ([run_entry] @ sync_entry # []) False) = a @ f # b
         \<and> get_functions ([run_entry] @ sync_entry\<lparr>me_rpc_mode := None\<rparr> # []) False
             = Inr (a @ f\<lparr>fn_rpc_mode := 0\<rparr> # b))
   \<and> get_functions ([run_entry] @ sync_entry\<lparr>me_name := None\<rparr> # []) False
       = Inl (KeyError ''name'')
   \<and> get_functions ([run_entry] @ sync_entry\<lparr>me_description := None\<rparr> # []) False
       = Inl (KeyError ''description'')
   \<and> get_functions ([run_entry] @ sync_entry\<lparr>me_signature := None\<rparr> # []) False
       = Inl (KeyError ''signature'')
   \<and> get_functions ([run_entry] @ sync_entry\<lparr>me_return_type := None\<rparr> # []) False
       = Inl (KeyError ''return_type'')
   \<and> get_functions ([run_entry] @ sync_entry\<lparr>me_arguments := None\<rparr> # []) False
       = Inl (KeyError ''arguments'')"
proof -
  let ?c = "projr (from_dict sample_record)"
  let ?fs = "projr (get_functions ([run_entry] @ sync_entry # []) False)"
  note t = rpc_mode_optional[where es = "[run_entry, sync_entry]" and st = False
      and d = sample_record and c = ?c and xs = "[run_entry]" and x = sync_entry
      and ys = "[]" and fs = ?fs]
  have h1: "list_all complete_method [run_entry, sync_entry]"
    by (simp add: run_entry_def sync_entry_def complete_method_def complete_argument_def)
  have v: "map rpc_mode_of [run_entry, sync_entry] = [0, 2]"
    by (simp add: run_entry_def sync_entry_def rpc_mode_of_def)
  have h2: "from_dict sample_record = Inr ?c"
    by code_simp
  have h3: "get_functions ([run_entry] @ sync_entry # []) False = Inr ?fs"
    by code_simp
  have h4: "\<not> spec_excluded False sync_entry"
    by code_simp
  from t[THEN conjunct1, THEN mp, OF h1] obtain fs where
    fs: "get_functions [run_entry, sync_entry] False = Inr fs"
    and l: "list_all2 (\<lambda>e f. fn_rpc_mode f = rpc_mode_of e)
              (filter (\<lambda>e. \<not> spec_excluded False e) [run_entry, sync_entry]) fs"
    by (elim exE conjE)
  have "map fn_rpc_mode (projr (get_functions [run_entry, sync_entry] False)) = [0, 2]"
    by code_simp
  with fs have w: "map fn_rpc_mode fs = [0, 2]" by simp
  have p1: "\<exists>fs. get_functions [run_entry, sync_entry] False = Inr fs
         \<and> map fn_rpc_mode fs = [0, 2]
         \<and> list_all2 (\<lambda>e f. fn_rpc_mode f = rpc_mode_of e)
              (filter (\<lambda>e. \<not> spec_excluded False e) [run_entry, sync_entry]) fs"
    by (rule exI[of _ fs]) (intro conjI fs w l)
  have u: "map fn_rpc_mode (cls_functions ?c) = [0, 2, 0]"
    by code_simp
  have p2: "\<exists>c. from_dict sample_record = Inr c
         \<and> map fn_rpc_mode (cls_functions c) = [0, 2, 0]
         \<and> (\<exists>ms ss fs1 fs2.
              d_methods sample_record = Some ms \<and> d_static_functions sample_record = Some ss
              \<and> cls_functions c = fs1 @ fs2
              \<and> list_all2 (\<lambda>e f. fn_rpc_mode f = rpc_mode_of e)
                   (filter (\<lambda>e. \<not> spec_excluded False e) ms) fs1
              \<and> list_all2 (\<lambda>e f. fn_rpc_mode f = rpc_mode_of e)
                   (filter (\<lambda>e. \<not> spec_excluded True e) ss) fs2)"
    by (rule exI[of _ ?c])
       (intro conjI h2 u t[THEN conjunct2, THEN conjunct1, THEN mp, OF h2])
  note q = t[THEN conjunct2, THEN conjunct2, THEN mp, OF conjI[OF h3 h4]]
  have z: "map fn_rpc_mode ?fs = [0, 2]"
    by code_simp
  have z': "map fn_rpc_mode
         (projr (get_functions ([run_entry] @ sync_entry\<lparr>me_rpc_mode := None\<rparr> # []) False))
       = [0, 0]"
    by code_simp
  show ?thesis
    by (intro conjI h1 v p1 p2 h4 z z' q[THEN conjunct1] q[THEN conjunct2, THEN conjunct1]
        q[THEN conjunct2, THEN conjunct2, THEN conjunct1]
        q[THEN conjunct2, THEN conjunct2, THEN conjunct2, THEN conjunct1]
        q[THEN conjunct2, THEN conjunct2, THEN conjunct2, THEN conjunct2, THEN conjunct1]
        q[THEN conjunct2, THEN conjunct2, THEN conjunct2, THEN conjunct2, THEN conjunct2])
qed

subsection \<open>Missing keys of a class record\<close>

text \<open>
  The claim as stated fails: a required field of a nested entry may be absent from a
  record that builds. In this record the method entry, the member entry and the constant
  entry have none of their fields but the first one read, and a class is built.
\<close>

theorem skipped_entries_build:
  "d_methods skipped_entries_class =
     Some [\<lparr>me_name = Some ''_ready'', me_signature = None, me_description = None,
            me_return_type = None, me_arguments = None, me_rpc_mode = None\<rparr>]
   \<and> d_members skipped_entries_class =
     Some [\<lparr>mbe_name = Some ''_cache'', mbe_signature = None, mbe_description = None,
            mbe_data_type = None, mbe_default_value = None, mbe_export = None,
            mbe_setter = None, mbe_getter = None\<rparr>]
   \<and> d_constants skipped_entries_class =
     Some [\<lparr>ce_data_type = Some ''int'', ce_signature = None, ce_name = None,
            ce_description = None, ce_value = None\<rparr>]
   \<and> from_dict skipped_entries_class =
       Inr \<lparr>cls_name = ''Foo'', cls_extends = [''Node''], cls_description = ''Does things.'',
            cls_path = ''foo.gd'', cls_functions = [], cls_members = [], cls_signals = [],
            cls_enums = [], cls_tags = [], cls_category = []\<rparr>"
proof (intro conjI)
  show "d_methods skipped_entries_class =
     Some [\<lparr>me_name = Some ''_ready'', me_signature = None, me_description = None,
            me_return_type = None, me_arguments = None, me_rpc_mode = None\<rparr>]"
    by (simp add: skipped_entries_class_def)
  show "d_members skipped_entries_class =
     Some [\<lparr>mbe_name = Some ''_cache'', mbe_signature = None, mbe_description = None,
            mbe_data_type = None, mbe_default_value = None, mbe_export = None,
            mbe_setter = None, mbe_getter = None\<rparr>]"
    by (simp add: skipped_entries_class_def)
  show "d_constants skipped_entries_class =
     Some [\<lparr>ce_data_type = Some ''int'', ce_signature = None, ce_name = None,
            ce_description = None, ce_value = None\<rparr>]"
    by (simp add: skipped_entries_class_def)
  show "from_dict skipped_entries_class =
       Inr \<lparr>cls_name = ''Foo'', cls_extends = [''Node''], cls_description = ''Does things.'',
            cls_path = ''foo.gd'', cls_functions = [], cls_members = [], cls_signals = [],
            cls_enums = [], cls_tags = [], cls_category = []\<rparr>"
    by code_simp
qed

text \<open>
  Claim C4, amended. Building the model of a raw class record fails if and only if a key
  that the builder reads is absent, and then with a \<open>KeyError\<close> naming the first such
  key in reading order, so that no class is produced; a record in which no such key is
  absent builds a class. The keys read are the top-level keys, every field of a signal
  entry, and of the other nested entries the fields read before the entry is skipped: in
  particular a record without one of the top-level keys \<open>extends_class\<close>,
  \<open>description\<close>, \<open>path\<close>, \<open>methods\<close>, \<open>static_functions\<close>, \<open>members\<close>,
  \<open>signals\<close> or \<open>constants\<close> always fails with a \<open>KeyError\<close> naming an absent key.
\<close>

theorem missing_key_reported:
  "(class_missing d = [] \<longrightarrow> (\<exists>c. from_dict d = Inr c))
   \<and> (\<forall>k ks. class_missing d = k # ks \<longrightarrow> from_dict d = Inl (KeyError k))
   \<and> (d_extends_class d = None \<or> d_description d = None \<or> d_path d = None
      \<or> d_methods d = None \<or> d_static_functions d = None \<or> d_members d = None
      \<or> d_signals d = None \<or> d_constants d = None \<longrightarrow>
        (\<exists>k. k \<in> set (class_missing d) \<and> from_dict d = Inl (KeyError k)))"
proof (intro conjI impI allI)
  assume "class_missing d = []"
  with from_dict_reports[of d] show "\<exists>c. from_dict d = Inr c"
    by (simp add: reports_Nil)
next
  fix k ks assume "class_missing d = k # ks"
  with from_dict_reports[of d] show "from_dict d = Inl (KeyError k)"
    by (simp add: reports_Cons)
next
  assume "d_extends_class d = None \<or> d_description d = None \<or> d_path d = None
      \<or> d_methods d = None \<or> d_static_functions d = None \<or> d_members d = None
      \<or> d_signals d = None \<or> d_constants d = None"
  then have "class_missing d \<noteq> []"
    by (auto simp: class_missing_def absent_def)
  then obtain k ks where k: "class_missing d = k # ks"
    by (cases "class_missing d") auto
  with from_dict_reports[of d] have "from_dict d = Inl (KeyError k)"
    by (simp add: reports_Cons)
  with k show "\<exists>k. k \<in> set (class_missing d) \<and> from_dict d = Inl (KeyError k)"
    by auto
qed

theorem missing_key_reported_witness:
  "class_missing sample_record = []
   \<and> (\<exists>c. from_dict sample_record = Inr c)
   \<and> d_path class_without_path = None
   \<and> class_missing class_without_path = [''path'', ''signals'']
   \<and> from_dict class_without_path = Inl (KeyError ''path'')
   \<and> (\<exists>k. k \<in> set (class_missing class_without_path)
          \<and> from_dict class_without_path = Inl (KeyError k))"
proof -
  have a: "class_missing sample_record = []"
    by code_simp
  have b: "d_path class_without_path = None"
    by (simp add: class_without_path_def)
  have c: "class_missing class_without_path = [''path'', ''signals'']"
    by code_simp
  note s = missing_key_reported[of sample_record]
  note t = missing_key_reported[of class_without_path]
  note t2 = t[THEN conjunct2, THEN conjunct1, THEN spec, THEN spec, THEN mp, OF c]
  have h: "d_extends_class class_without_path = None \<or> d_description class_without_path = None
      \<or> d_path class_without_path = None
      \<or> d_methods class_without_path = None \<or> d_static_functions class_without_path = None
      \<or> d_members class_without_path = None
      \<or> d_signals class_without_path = None \<or> d_constants class_without_path = None"
    by (simp add: b)
  note t3 = t[THEN conjunct2, THEN conjunct2, THEN mp, OF h]
  show ?thesis
    by (intro conjI a s[THEN conjunct1, THEN mp, OF a] b c t2 t3)
qed

section \<open>Properties of the grouping\<close>

text \<open>
  Claim C8. The claim has \<open>get_grouped_by_category\<close> return the classes sorted by category
  and cut into groups of equal category, and the empty list for an empty collection. The
  empty case holds; on every collection that is not empty the source's call
  \<open>sorted(self, get_attribute)\<close> raises \<open>TypeError\<close>, so that no grouping is returned.
\<close>

theorem grouping_raises:
  "get_grouped_by_category [] = Inr []
   \<and> get_grouped_by_category (c # cs) = Inl (TypeError ''sorted expected 1 argument, got 2'')"
  by (simp add: get_grouped_by_category_def get_grouped_by_def GDScriptClass_fields_def
      sorted_two_positional_def andthen_Inl)

section \<open>Properties of the renderer\<close>

subsection \<open>Sections\<close>

lemma section_as_text_Nil: "section_as_text h title level [] = []"
  by (simp add: section_as_text_def)

lemma section_as_text_Cons:
  "section_as_text h title level (x # xs) = make_heading h title level @ x # xs"
  by (simp add: section_as_text_def)

lemma write_enum_default:
  "output_format \<noteq> HUGO \<Longrightarrow> write_enum h output_format enum = write_enum h MARDKOWN enum"
  by (simp add: write_enum_def)

lemma write_member_default:
  "output_format \<noteq> HUGO \<Longrightarrow>
   write_member h output_format member = write_member h MARDKOWN member"
  by (simp add: write_member_def)

lemma write_function_default:
  "output_format \<noteq> HUGO \<Longrightarrow>
   write_function h output_format function = write_function h MARDKOWN function"
  by (simp add: write_function_def)

lemma class_sections_default:
  assumes "output_format \<noteq> HUGO"
  shows "class_sections h gdscript output_format = class_sections h gdscript MARDKOWN"
proof -
  have "write_enums h enums output_format = write_enums h enums MARDKOWN" for enums
    by (simp add: write_enums_def write_enum_default[OF assms, abs_def])
  moreover have "write_members h members output_format = write_members h members MARDKOWN"
    for members
    by (simp add: write_members_def write_member_default[OF assms, abs_def])
  moreover have "write_functions h fs output_format = write_functions h fs MARDKOWN" for fs
    by (simp add: write_functions_def write_function_default[OF assms, abs_def])
  ultimately show ?thesis
    by (simp only: class_sections_def)
qed

subsection \<open>The setter and getter table\<close>

text \<open>
  Claim C6. The claim has the setter and getter table emitted exactly when a setter or a
  getter is present, so that a member with a getter only gets its Getter row. The guard
  of the source tests the setter twice: a member without a setter gets no table, whatever
  its getter, and its entry is the heading, the code block and the description alone.
\<close>

theorem getter_row_missing:
  "write_member h output_format (member\<lparr>mem_setter := []\<rparr>) =
     make_heading h (mem_name member) 3
     @ [if output_format = HUGO then highlight_code h (mem_signature member)
        else make_code_block h (mem_signature member), []]
     @ [mem_description member]"
  by (simp add: write_member_def)

theorem getter_row_missing_witness:
  "mem_setter getter_only_member = [] \<and> mem_getter getter_only_member = ''get_health''
   \<and> write_member sample_helpers MARDKOWN getter_only_member =
       [''### health'', [], ''~~~\<newline>var health: int\<newline>~~~'', [], ''Remaining health.'']"
proof -
  have s: "mem_setter getter_only_member = []" by (simp add: getter_only_member_def)
  have g: "mem_getter getter_only_member = ''get_health''"
    by (simp add: getter_only_member_def)
  have u: "getter_only_member\<lparr>mem_setter := []\<rparr> = getter_only_member"
    by (simp add: getter_only_member_def)
  have v: "mem_name getter_only_member = ''health''"
    "mem_signature getter_only_member = ''var health: int''"
    "mem_description getter_only_member = ''Remaining health.''"
    by (simp_all add: getter_only_member_def)
  from getter_row_missing[of sample_helpers MARDKOWN getter_only_member]
  have w: "write_member sample_helpers MARDKOWN getter_only_member =
       [''### health'', [], ''~~~\<newline>var health: int\<newline>~~~'', [], ''Remaining health.'']"
    by (simp add: u v sample_helpers_def newline_def numeral_3_eq_3)
  show ?thesis by (intro conjI s g w)
qed

subsection \<open>A dialect that is neither plain nor augmented\<close>

text \<open>
  The claim as stated fails: with the dialect \<open>OTHER ''pdf''\<close> the renderer returns a
  document, here for a class with one member.
\<close>

theorem other_dialect_renders:
  "as_markdown sample_helpers sample_class \<lparr>ns_format = OTHER ''pdf''\<rparr> =
     \<lparr>doc_title = ''Player'',
      doc_content =
        [''<!-- Auto-generated from JSON by GDScript docs maker. Do not edit this document directly. -->\<newline>'',
         ''**Extends:** KinematicBody2D < Node'', ''## Description'', [], ''The player.'',
         ''## Properties'', [], ''Type | Name'', ''--- | ---'', ''int | health'',
         ''## Methods'', [], ''Type | Name'', ''--- | ---'',
         ''## Property Descriptions'', [], ''### health'', [],
         ''~~~\<newline>var health: int\<newline>~~~'', [], ''Remaining health.'']\<rparr>"
  by code_simp

text \<open>
  Claim C7, amended. For every options value whose dialect is neither the plain nor the
  augmented one, rendering a class raises no error: it returns the document of the plain
  dialect without the title heading, that is the generation notice followed by the
  \<open>Extends\<close> line and the sections, with the code blocks of the plain dialect and no
  front matter.
\<close>

theorem other_dialect_defaults:
  assumes "ns_format arguments \<noteq> MARDKOWN" and "ns_format arguments \<noteq> HUGO"
  shows "as_markdown h gdscript arguments =
           \<lparr>doc_title = cls_name gdscript,
            doc_content = [make_comment h notice @ [newline]]
                          @ class_sections h gdscript MARDKOWN\<rparr>"
  using assms by (simp add: as_markdown_def Let_def class_sections_default[OF assms(2)])

theorem other_dialect_defaults_witness:
  "ns_format \<lparr>ns_format = OTHER ''pdf''\<rparr> \<noteq> MARDKOWN
   \<and> ns_format \<lparr>ns_format = OTHER ''pdf''\<rparr> \<noteq> HUGO
   \<and> as_markdown sample_helpers bare_class \<lparr>ns_format = OTHER ''pdf''\<rparr> =
       \<lparr>doc_title = ''Foo'',
        doc_content =
          [''<!-- Auto-generated from JSON by GDScript docs maker. Do not edit this document directly. -->\<newline>'',
           ''**Extends:** Node'', ''## Description'', [], ''Does things.'',
           ''## Methods'', [], ''Type | Name'', ''--- | ---'']\<rparr>"
proof -
  have a: "ns_format \<lparr>ns_format = OTHER ''pdf''\<rparr> \<noteq> MARDKOWN" by simp
  have b: "ns_format \<lparr>ns_format = OTHER ''pdf''\<rparr> \<noteq> HUGO" by simp
  have c: "class_sections sample_helpers bare_class MARDKOWN =
             [''**Extends:** Node'', ''## Description'', [], ''Does things.'',
              ''## Methods'', [], ''Type | Name'', ''--- | ---'']"
    by code_simp
  have d: "make_comment sample_helpers notice @ [newline] =
    ''<!-- Auto-generated from JSON by GDScript docs maker. Do not edit this document directly. -->\<newline>''"
    by code_simp
  have e: "cls_name bare_class = ''Foo''" by (simp add: bare_class_def)
  from other_dialect_defaults[OF a b, of sample_helpers bare_class]
  have "as_markdown sample_helpers bare_class \<lparr>ns_format = OTHER ''pdf''\<rparr> =
       \<lparr>doc_title = ''Foo'',
        doc_content =
          [''<!-- Auto-generated from JSON by GDScript docs maker. Do not edit this document directly. -->\<newline>'',
           ''**Extends:** Node'', ''## Description'', [], ''Does things.'',
           ''## Methods'', [], ''Type | Name'', ''--- | ---'']\<rparr>"
    by (simp only: c d e append.simps)
  with a b show ?thesis by (intro conjI)
qed

subsection \<open>Sections without content\<close>

text \<open>
  Claim C9. For a class with no member, no signal and no enumeration, in every dialect,
  the rendered document is made of the optional front matter, the generation notice, the
  optional title, the \<open>Extends\<close> line, the section \<open>Description\<close>, the section
  \<open>Methods\<close> and the section \<open>Method Descriptions\<close>: the content lists of the sections
  \<open>Properties\<close>, \<open>Signals\<close>, \<open>Enumerations\<close> and \<open>Property Descriptions\<close> are empty
  and these sections contribute no line, hence no heading, to the document. The content
  of the section \<open>Methods\<close> is the table header followed by one row for each function,
  with no test of the function list: as soon as the table header has a line, the
  document contains the heading \<open>Methods\<close> followed by the table header, also for a
  class without functions, where the header is the whole table.
\<close>

theorem empty_sections_omitted:
  assumes "cls_members gdscript = []" and "cls_signals gdscript = []"
    and "cls_enums gdscript = []"
  shows "doc_content (as_markdown h gdscript arguments) =
      (if ns_format arguments = HUGO then hugo_front_matter h gdscript arguments else [])
      @ [make_comment h notice @ [newline]]
      @ (if ns_format arguments = MARDKOWN
         then make_heading h
                (if ''abstract'' \<in> set (cls_tags gdscript)
                 then cls_name gdscript @ '' '' @ surround_with_html h ''(abstract)'' ''small''
                 else cls_name gdscript) 1
         else [])
      @ [make_bold h ''Extends:'' @ '' '' @ extends_as_string gdscript]
      @ make_heading h ''Description'' 2 @ [cls_description gdscript]
      @ section_as_text h ''Methods'' 2
          (make_table_header h [''Type'', ''Name'']
           @ map (\<lambda>f. make_table_row h [fn_return_type f, fn_signature f])
               (cls_functions gdscript))
      @ section_as_text h ''Method Descriptions'' 2
          (write_functions h (cls_functions gdscript) (ns_format arguments))
    \<and> (make_table_header h [''Type'', ''Name''] \<noteq> [] \<longrightarrow>
         section_as_text h ''Methods'' 2
           (make_table_header h [''Type'', ''Name'']
            @ map (\<lambda>f. make_table_row h [fn_return_type f, fn_signature f])
                (cls_functions gdscript))
         = make_heading h ''Methods'' 2 @ make_table_header h [''Type'', ''Name'']
           @ map (\<lambda>f. make_table_row h [fn_return_type f, fn_signature f])
               (cls_functions gdscript))
    \<and> (make_table_header h [''Type'', ''Name''] \<noteq> [] \<and> cls_functions gdscript = [] \<longrightarrow>
         doc_content (as_markdown h gdscript arguments) =
           (if ns_format arguments = HUGO then hugo_front_matter h gdscript arguments else [])
           @ [make_comment h notice @ [newline]]
           @ (if ns_format arguments = MARDKOWN
              then make_heading h
                     (if ''abstract'' \<in> set (cls_tags gdscript)
                      then cls_name gdscript @ '' ''
                           @ surround_with_html h ''(abstract)'' ''small''
                      else cls_name gdscript) 1
              else [])
           @ [make_bold h ''Extends:'' @ '' '' @ extends_as_string gdscript]
           @ make_heading h ''Description'' 2 @ [cls_description gdscript]
           @ make_heading h ''Methods'' 2 @ make_table_header h [''Type'', ''Name''])
    \<and> summarize_members h gdscript = []
    \<and> write_signals h (cls_signals gdscript) = []
    \<and> write_enums h (cls_enums gdscript) (ns_format arguments) = []
    \<and> write_members h (cls_members gdscript) (ns_format arguments) = []
    \<and> section_as_text h ''Properties'' 2 (summarize_members h gdscript) = []
    \<and> section_as_text h ''Signals'' 2 (write_signals h (cls_signals gdscript)) = []
    \<and> section_as_text h ''Enumerations'' 2
         (write_enums h (cls_enums gdscript) (ns_format arguments)) = []
    \<and> section_as_text h ''Property Descriptions'' 2
         (write_members h (cls_members gdscript) (ns_format arguments)) = []"
proof -
  let ?rows = "map (\<lambda>f. make_table_row h [fn_return_type f, fn_signature f])
                 (cls_functions gdscript)"
  let ?header = "make_table_header h [''Type'', ''Name'']"
  have m: "summarize_members h gdscript = []"
    using assms(1) by (simp add: summarize_members_def)
  have s: "write_signals h (cls_signals gdscript) = []"
    using assms(2) by (simp add: write_signals_def)
  have e: "write_enums h (cls_enums gdscript) (ns_format arguments) = []"
    using assms(3) by (simp add: write_enums_def)
  have w: "write_members h (cls_members gdscript) (ns_format arguments) = []"
    using assms(1) by (simp add: write_members_def)
  have t: "summarize_methods h gdscript = ?header @ ?rows"
    by (simp add: summarize_methods_def function_summarize_def)
  have c: "class_sections h gdscript (ns_format arguments) =
         [make_bold h ''Extends:'' @ '' '' @ extends_as_string gdscript]
         @ make_heading h ''Description'' 2 @ [cls_description gdscript]
         @ section_as_text h ''Methods'' 2 (?header @ ?rows)
         @ section_as_text h ''Method Descriptions'' 2
             (write_functions h (cls_functions gdscript) (ns_format arguments))"
    by (simp add: class_sections_def m s e w t section_as_text_Nil section_as_text_Cons)
  have d: "doc_content (as_markdown h gdscript arguments) =
      (if ns_format arguments = HUGO then hugo_front_matter h gdscript arguments else [])
      @ [make_comment h notice @ [newline]]
      @ (if ns_format arguments = MARDKOWN
         then make_heading h
                (if ''abstract'' \<in> set (cls_tags gdscript)
                 then cls_name gdscript @ '' '' @ surround_with_html h ''(abstract)'' ''small''
                 else cls_name gdscript) 1
         else [])
      @ class_sections h gdscript (ns_format arguments)"
    by (simp add: as_markdown_def Let_def)
  have k: "section_as_text h ''Methods'' 2 (?header @ ?rows)
           = make_heading h ''Methods'' 2 @ ?header @ ?rows"
    if "?header \<noteq> []"
    using that by (simp add: section_as_text_def)
  show ?thesis
  proof (intro conjI impI)
    show "doc_content (as_markdown h gdscript arguments) =
      (if ns_format arguments = HUGO then hugo_front_matter h gdscript arguments else [])
      @ [make_comment h notice @ [newline]]
      @ (if ns_format arguments = MARDKOWN
         then make_heading h
                (if ''abstract'' \<in> set (cls_tags gdscript)
                 then cls_name gdscript @ '' '' @ surround_with_html h ''(abstract)'' ''small''
                 else cls_name gdscript) 1
         else [])
      @ [make_bold h ''Extends:'' @ '' '' @ extends_as_string gdscript]
      @ make_heading h ''Description'' 2 @ [cls_description gdscript]
      @ section_as_text h ''Methods'' 2 (?header @ ?rows)
      @ section_as_text h ''Method Descriptions'' 2
          (write_functions h (cls_functions gdscript) (ns_format arguments))"
      by (simp only: d c)
  next
    assume "?header \<noteq> []"
    then show "section_as_text h ''Methods'' 2 (?header @ ?rows)
           = make_heading h ''Methods'' 2 @ ?header @ ?rows"
      by (rule k)
  next
    assume a: "?header \<noteq> [] \<and> cls_functions gdscript = []"
    show "doc_content (as_markdown h gdscript arguments) =
           (if ns_format arguments = HUGO then hugo_front_matter h gdscript arguments else [])
           @ [make_comment h notice @ [newline]]
           @ (if ns_format arguments = MARDKOWN
              then make_heading h
                     (if ''abstract'' \<in> set (cls_tags gdscript)
                      then cls_name gdscript @ '' ''
                           @ surround_with_html h ''(abstract)'' ''small''
                      else cls_name gdscript) 1
              else [])
           @ [make_bold h ''Extends:'' @ '' '' @ extends_as_string gdscript]
           @ make_heading h ''Description'' 2 @ [cls_description gdscript]
           @ make_heading h ''Methods'' 2 @ ?header"
      using a by (simp add: d c write_functions_def section_as_text_def)
  next
    show "section_as_text h ''Properties'' 2 (summarize_members h gdscript) = []"
      by (simp only: m section_as_text_Nil)
    show "section_as_text h ''Signals'' 2 (write_signals h (cls_signals gdscript)) = []"
      by (simp only: s section_as_text_Nil)
    show "section_as_text h ''Enumerations'' 2
         (write_enums h (cls_enums gdscript) (ns_format arguments)) = []"
      by (simp only: e section_as_text_Nil)
    show "section_as_text h ''Property Descriptions'' 2
         (write_members h (cls_members gdscript) (ns_format arguments)) = []"
      by (simp only: w section_as_text_Nil)
  qed (rule m s e w)+
qed

theorem empty_sections_omitted_witness:
  "cls_members bare_class = [] \<and> cls_signals bare_class = [] \<and> cls_enums bare_class = []
   \<and> cls_functions bare_class = []
   \<and> make_table_header sample_helpers [''Type'', ''Name''] = [''Type | Name'', ''--- | ---'']
   \<and> make_heading sample_helpers ''Methods'' 2 = [''## Methods'', []]
   \<and> doc_content (as_markdown sample_helpers bare_class \<lparr>ns_format = HUGO\<rparr>) =
        [''---'', ''title: Foo'', ''---'',
         ''<!-- Auto-generated from JSON by GDScript docs maker. Do not edit this document directly. -->\<newline>'',
         ''**Extends:** Node'', ''## Description'', [], ''Does things.'',
         ''## Methods'', [], ''Type | Name'', ''--- | ---'']
   \<and> section_as_text sample_helpers ''Properties'' 2
        (summarize_members sample_helpers bare_class) = []"
proof -
  have a: "cls_members bare_class = []" "cls_signals bare_class = []"
    "cls_enums bare_class = []"
    by (simp_all add: bare_class_def)
  have f: "cls_functions bare_class = []" by (simp add: bare_class_def)
  have k: "make_table_header sample_helpers [''Type'', ''Name''] = [''Type | Name'', ''--- | ---'']"
    by (simp add: sample_helpers_def)
  have g: "make_heading sample_helpers ''Methods'' 2 = [''## Methods'', []]"
    by (simp add: sample_helpers_def numeral_2_eq_2)
  note r = empty_sections_omitted[OF a, of sample_helpers "\<lparr>ns_format = HUGO\<rparr>"]
  have n: "make_table_header sample_helpers [''Type'', ''Name''] \<noteq> []
           \<and> cls_functions bare_class = []"
    by (simp add: k f)
  note r3 = r[THEN conjunct2, THEN conjunct2, THEN conjunct1, THEN mp, OF n]
  have p: "(if ns_format \<lparr>ns_format = HUGO\<rparr> = HUGO
            then hugo_front_matter sample_helpers bare_class \<lparr>ns_format = HUGO\<rparr> else [])
           @ [make_comment sample_helpers notice @ [newline]]
           @ (if ns_format \<lparr>ns_format = HUGO\<rparr> = MARDKOWN
              then make_heading sample_helpers
                     (if ''abstract'' \<in> set (cls_tags bare_class)
                      then cls_name bare_class @ '' ''
                           @ surround_with_html sample_helpers ''(abstract)'' ''small''
                      else cls_name bare_class) 1
              else [])
           @ [make_bold sample_helpers ''Extends:'' @ '' '' @ extends_as_string bare_class]
           @ make_heading sample_helpers ''Description'' 2 @ [cls_description bare_class]
           @ make_heading sample_helpers ''Methods'' 2
           @ make_table_header sample_helpers [''Type'', ''Name'']
         = [''---'', ''title: Foo'', ''---'',
         ''<!-- Auto-generated from JSON by GDScript docs maker. Do not edit this document directly. -->\<newline>'',
         ''**Extends:** Node'', ''## Description'', [], ''Does things.'',
         ''## Methods'', [], ''Type | Name'', ''--- | ---'']"
    by code_simp
  from r3 have d: "doc_content (as_markdown sample_helpers bare_class \<lparr>ns_format = HUGO\<rparr>) =
        [''---'', ''title: Foo'', ''---'',
         ''<!-- Auto-generated from JSON by GDScript docs maker. Do not edit this document directly. -->\<newline>'',
         ''**Extends:** Node'', ''## Description'', [], ''Does things.'',
         ''## Methods'', [], ''Type | Name'', ''--- | ---'']"
    by (simp only: p)
  note r8 = r[THEN conjunct2, THEN conjunct2, THEN conjunct2, THEN conjunct2,
              THEN conjunct2, THEN conjunct2, THEN conjunct2, THEN conjunct1]
  show ?thesis
    by (intro conjI a f k g d r8)
qed

end
